theory Spec2Isabelle
  imports Complex_Main
begin

section \<open>Net worth projection (src/app.py)\<close>

text \<open>
  The embedding follows \<^verbatim>\<open>calculate_net_worth_projection\<close> and the sensitivity loop of
  \<^verbatim>\<open>main\<close> in src/app.py. Python's \<^verbatim>\<open>float\<close> is idealised as \<^typ>\<open>real\<close>: every
  product, sum and difference of the source is the exact one, and \<^verbatim>\<open>round(x, 2)\<close> is the
  exact rounding of \<open>x\<close> to the nearest multiple of 1/100, ties to the even one. The
  representation error of binary floating point is outside the model. A second
  embedding of the same loop, below, carries the infinities and NaN of IEEE 754, for the
  properties that depend on overflow. Python's \<^verbatim>\<open>int\<close> is \<^typ>\<open>int\<close>.
\<close>

subsection \<open>Data\<close>

text \<open>
  One row of the returned DataFrame: the dictionary \<^verbatim>\<open>current_state\<close> with the keys
  "Year", "Net Worth", "Salary", "Dividend Income", "Total Income", "After-tax Income",
  "Expenses" and "Savings".
\<close>

record current_state =
  Year :: int
  Net_Worth :: real
  Salary :: real
  Dividend_Income :: real
  Total_Income :: real
  After_tax_Income :: real
  Expenses :: real
  Savings :: real

text \<open>
  The variables the loop of \<^verbatim>\<open>calculate_net_worth_projection\<close> mutates: the list
  \<^verbatim>\<open>data\<close> and the accumulators \<^verbatim>\<open>current_net_worth\<close> and \<^verbatim>\<open>current_salary\<close>.
\<close>

record loop_state =
  data :: "current_state list"
  current_net_worth :: real
  current_salary :: real

text \<open>
  What a call can end with besides a value. The projection function has no \<^verbatim>\<open>raise\<close>
  and no validation; \<^verbatim>\<open>IndexError\<close> is what pandas raises for \<^verbatim>\<open>iloc[-1]\<close> on a frame
  with no rows. \<open>InvalidInputError\<close> is the error the specification names; no line of
  the source raises it.
\<close>

datatype error = InvalidInputError | IndexError

subsection \<open>Rounding\<close>

text \<open>
  \<^verbatim>\<open>round(x, 2)\<close>: the multiple of 1/100 nearest to \<open>x\<close>; exactly half way between two
  of them, the one with the even numerator. \<open>round_half_even\<close> is the rounding to an
  integer that Python applies to \<open>x\<close> scaled by 100.
\<close>

definition round_half_even :: "real \<Rightarrow> int" where
  "round_half_even y =
     (let f = \<lfloor>y\<rfloor>; d = y - of_int f
      in if d < 1 / 2 then f
         else if 1 / 2 < d then f + 1
         else if even f then f else f + 1)"

definition py_round2 :: "real \<Rightarrow> real" where
  "py_round2 x = of_int (round_half_even (x * 100)) / 100"

subsection \<open>The projection\<close>

text \<open>
  One pass of the body of \<^verbatim>\<open>for year in years\<close> (lines 53 to 90): the derived values are
  computed from the accumulators, the row is built from rounded copies, the accumulators
  are advanced with the unrounded savings, and the row is appended.
\<close>

definition loop_body ::
  "real \<Rightarrow> real \<Rightarrow> real \<Rightarrow> real \<Rightarrow> real \<Rightarrow> int \<Rightarrow> loop_state \<Rightarrow> loop_state" where
  "loop_body salary_growth_rate asset_growth_rate dividend_yield tax_rate expense_ratio year st =
     (let dividend_income = current_net_worth st * dividend_yield;
          total_income = current_salary st + dividend_income;
          after_tax_income = total_income * (1 - tax_rate);
          expenses = after_tax_income * expense_ratio;
          savings = after_tax_income - expenses;
          row = \<lparr>Year = year,
                 Net_Worth = py_round2 (current_net_worth st),
                 Salary = py_round2 (current_salary st),
                 Dividend_Income = py_round2 dividend_income,
                 Total_Income = py_round2 total_income,
                 After_tax_Income = py_round2 after_tax_income,
                 Expenses = py_round2 expenses,
                 Savings = py_round2 savings\<rparr>
      in \<lparr>data = data st @ [row],
          current_net_worth = (current_net_worth st + savings) * (1 + asset_growth_rate),
          current_salary = current_salary st * (1 + salary_growth_rate)\<rparr>)"

text \<open>The state before the loop (lines 48 to 51).\<close>

definition init_state :: "real \<Rightarrow> real \<Rightarrow> loop_state" where
  "init_state initial_net_worth initial_salary =
     \<lparr>data = [], current_net_worth = initial_net_worth, current_salary = initial_salary\<rparr>"

text \<open>
  The loop over a list of years, from the initial state. \<^verbatim>\<open>range(start_year, end_year + 1)\<close>
  is the list \<open>[start_year..end_year]\<close>, empty when \<open>end_year < start_year\<close>.
\<close>

definition run_loop ::
  "real \<Rightarrow> real \<Rightarrow> real \<Rightarrow> real \<Rightarrow> real \<Rightarrow> real \<Rightarrow> real \<Rightarrow> int list \<Rightarrow> loop_state" where
  "run_loop initial_net_worth initial_salary salary_growth_rate asset_growth_rate
       dividend_yield tax_rate expense_ratio years =
     fold (loop_body salary_growth_rate asset_growth_rate dividend_yield tax_rate expense_ratio)
       years (init_state initial_net_worth initial_salary)"

text \<open>
  \<^verbatim>\<open>calculate_net_worth_projection\<close>, with the parameters in the order of the source. The
  result is the list of rows of the DataFrame; the function has no failing branch.
\<close>

definition calculate_net_worth_projection ::
  "real \<Rightarrow> real \<Rightarrow> real \<Rightarrow> real \<Rightarrow> real \<Rightarrow> real \<Rightarrow> real \<Rightarrow> int \<Rightarrow> int
     \<Rightarrow> error + current_state list" where
  "calculate_net_worth_projection initial_net_worth initial_salary salary_growth_rate
       asset_growth_rate dividend_yield tax_rate expense_ratio start_year end_year =
     Inr (data (run_loop initial_net_worth initial_salary salary_growth_rate asset_growth_rate
                  dividend_yield tax_rate expense_ratio [start_year..end_year]))"

text \<open>
  The accumulators after the first \<open>k\<close> passes of the loop of a call: the running state
  from which the row of index \<open>k\<close> is built.
\<close>

definition state_after ::
  "real \<Rightarrow> real \<Rightarrow> real \<Rightarrow> real \<Rightarrow> real \<Rightarrow> real \<Rightarrow> real \<Rightarrow> int \<Rightarrow> int \<Rightarrow> nat \<Rightarrow> loop_state" where
  "state_after initial_net_worth initial_salary salary_growth_rate asset_growth_rate
       dividend_yield tax_rate expense_ratio start_year end_year k =
     run_loop initial_net_worth initial_salary salary_growth_rate asset_growth_rate
       dividend_yield tax_rate expense_ratio (take k [start_year..end_year])"

subsection \<open>The sensitivity table\<close>

text \<open>
  \<^verbatim>\<open>list(range(start, stop, step))\<close> for a positive step, and the two grids of
  \<^verbatim>\<open>main\<close> (lines 232 and 233), in percent.
\<close>

definition py_range :: "int \<Rightarrow> int \<Rightarrow> int \<Rightarrow> int list" where
  "py_range start stop step = map (\<lambda>k. start + step * k) [0..(stop - start - 1) div step]"

definition tax_rates :: "int list" where
  "tax_rates = py_range 20 51 5"

definition growth_rates :: "int list" where
  "growth_rates = py_range 4 21 2"

text \<open>\<^verbatim>\<open>result.iloc[-1]\<close>: the last row, IndexError on a frame without rows.\<close>

definition iloc_last :: "current_state list \<Rightarrow> error + current_state" where
  "iloc_last result = (case result of [] \<Rightarrow> Inl IndexError | _ \<Rightarrow> Inr (last result))"

text \<open>
  One cell (lines 239 to 250). The arguments are the locals of \<^verbatim>\<open>main\<close>: the rates are
  percentages, divided by 100 at the call.
\<close>

definition cell ::
  "real \<Rightarrow> real \<Rightarrow> real \<Rightarrow> real \<Rightarrow> real \<Rightarrow> int \<Rightarrow> int \<Rightarrow> int \<Rightarrow> int \<Rightarrow> error + real" where
  "cell initial_net_worth initial_salary salary_growth dividend_yield expense_ratio
       start_year end_year growth tax =
     (case calculate_net_worth_projection initial_net_worth initial_salary (salary_growth / 100)
             (of_int growth / 100) (dividend_yield / 100) (of_int tax / 100)
             (expense_ratio / 100) start_year end_year of
        Inl e \<Rightarrow> Inl e
      | Inr result \<Rightarrow>
          (case iloc_last result of Inl e \<Rightarrow> Inl e | Inr r \<Rightarrow> Inr (Net_Worth r)))"

text \<open>
  A \<^verbatim>\<open>for\<close> loop that appends one computed value per element and is left by the first
  exception: the inner loop over the tax rates and the outer loop over the growth rates.
\<close>

fun append_each :: "('a \<Rightarrow> error + 'b) \<Rightarrow> 'a list \<Rightarrow> 'b list \<Rightarrow> error + 'b list" where
  "append_each f [] acc = Inr acc"
| "append_each f (x # xs) acc =
     (case f x of Inl e \<Rightarrow> Inl e | Inr v \<Rightarrow> append_each f xs (acc @ [v]))"

definition sensitivity_data ::
  "real \<Rightarrow> real \<Rightarrow> real \<Rightarrow> real \<Rightarrow> real \<Rightarrow> int \<Rightarrow> int \<Rightarrow> int list \<Rightarrow> int list
     \<Rightarrow> error + real list list" where
  "sensitivity_data initial_net_worth initial_salary salary_growth dividend_yield expense_ratio
       start_year end_year growths taxes =
     append_each
       (\<lambda>growth. append_each
          (cell initial_net_worth initial_salary salary_growth dividend_yield expense_ratio
             start_year end_year growth) taxes [])
       growths []"

subsection \<open>Auxiliary definition: the row of a pass\<close>

text \<open>
  The row that a pass of the loop appends, written from the accumulators of the state
  the pass starts in.
\<close>

definition row_of :: "real \<Rightarrow> real \<Rightarrow> real \<Rightarrow> int \<Rightarrow> loop_state \<Rightarrow> current_state" where
  "row_of dividend_yield tax_rate expense_ratio year st =
     \<lparr>Year = year,
      Net_Worth = py_round2 (current_net_worth st),
      Salary = py_round2 (current_salary st),
      Dividend_Income = py_round2 (current_net_worth st * dividend_yield),
      Total_Income = py_round2 (current_salary st + current_net_worth st * dividend_yield),
      After_tax_Income =
        py_round2 ((current_salary st + current_net_worth st * dividend_yield) * (1 - tax_rate)),
      Expenses =
        py_round2 ((current_salary st + current_net_worth st * dividend_yield) * (1 - tax_rate)
                   * expense_ratio),
      Savings =
        py_round2 ((current_salary st + current_net_worth st * dividend_yield) * (1 - tax_rate)
                   - (current_salary st + current_net_worth st * dividend_yield) * (1 - tax_rate)
                     * expense_ratio)\<rparr>"

subsection \<open>The projection with the special values of IEEE 754\<close>

text \<open>
  A Python \<^verbatim>\<open>float\<close> with its special values: a finite value, the two infinities and
  NaN. A finite result is kept exact; a result of magnitude \<open>2 ^ 1024 - 2 ^ 970\<close> or more
  (the first real that rounds beyond the largest double) is an infinity, as \<^verbatim>\<open>*\<close>, \<^verbatim>\<open>+\<close>
  and \<^verbatim>\<open>-\<close> on Python floats overflow without raising; \<open>inf * 0\<close> and \<open>inf - inf\<close> are NaN.
\<close>

datatype pyfloat = Fin real | PInf | NInf | NaN

definition overflow_threshold :: real where
  "overflow_threshold = 2 ^ 1024 - 2 ^ 970"

definition fl :: "real \<Rightarrow> pyfloat" where
  "fl x = (if overflow_threshold \<le> x then PInf
           else if x \<le> - overflow_threshold then NInf
           else Fin x)"

fun fadd :: "pyfloat \<Rightarrow> pyfloat \<Rightarrow> pyfloat" where
  "fadd (Fin x) (Fin y) = fl (x + y)"
| "fadd NaN _ = NaN"
| "fadd _ NaN = NaN"
| "fadd PInf NInf = NaN"
| "fadd NInf PInf = NaN"
| "fadd PInf _ = PInf"
| "fadd _ PInf = PInf"
| "fadd NInf _ = NInf"
| "fadd _ NInf = NInf"

fun fneg :: "pyfloat \<Rightarrow> pyfloat" where
  "fneg (Fin x) = Fin (- x)"
| "fneg PInf = NInf"
| "fneg NInf = PInf"
| "fneg NaN = NaN"

definition fsub :: "pyfloat \<Rightarrow> pyfloat \<Rightarrow> pyfloat" where
  "fsub a b = fadd a (fneg b)"

text \<open>The sign of an infinity times a finite value; \<open>inf * 0\<close> is NaN.\<close>

fun inf_times :: "bool \<Rightarrow> real \<Rightarrow> pyfloat" where
  "inf_times positive y =
     (if y = 0 then NaN else if (0 < y) = positive then PInf else NInf)"

fun fmul :: "pyfloat \<Rightarrow> pyfloat \<Rightarrow> pyfloat" where
  "fmul (Fin x) (Fin y) = fl (x * y)"
| "fmul NaN _ = NaN"
| "fmul _ NaN = NaN"
| "fmul PInf (Fin y) = inf_times True y"
| "fmul NInf (Fin y) = inf_times False y"
| "fmul (Fin x) PInf = inf_times True x"
| "fmul (Fin x) NInf = inf_times False x"
| "fmul PInf PInf = PInf"
| "fmul PInf NInf = NInf"
| "fmul NInf PInf = NInf"
| "fmul NInf NInf = PInf"

text \<open>\<^verbatim>\<open>round(x, 2)\<close> on a float: an infinity and NaN are returned as they are.\<close>

fun fround2 :: "pyfloat \<Rightarrow> pyfloat" where
  "fround2 (Fin x) = Fin (py_round2 x)"
| "fround2 PInf = PInf"
| "fround2 NInf = NInf"
| "fround2 NaN = NaN"

text \<open>\<^verbatim>\<open>v >= 0\<close>, \<^verbatim>\<open>math.isnan(v)\<close> and \<^verbatim>\<open>math.isfinite(v)\<close>.\<close>

fun ge0 :: "pyfloat \<Rightarrow> bool" where
  "ge0 (Fin x) = (0 \<le> x)"
| "ge0 PInf = True"
| "ge0 NInf = False"
| "ge0 NaN = False"

fun isnan :: "pyfloat \<Rightarrow> bool" where
  "isnan NaN = True"
| "isnan _ = False"

fun isfinite :: "pyfloat \<Rightarrow> bool" where
  "isfinite (Fin x) = True"
| "isfinite _ = False"

record current_state_ieee =
  Year_ieee :: int
  Net_Worth_ieee :: pyfloat
  Salary_ieee :: pyfloat
  Dividend_Income_ieee :: pyfloat
  Total_Income_ieee :: pyfloat
  After_tax_Income_ieee :: pyfloat
  Expenses_ieee :: pyfloat
  Savings_ieee :: pyfloat

record loop_state_ieee =
  data_ieee :: "current_state_ieee list"
  current_net_worth_ieee :: pyfloat
  current_salary_ieee :: pyfloat

text \<open>
  The body of the loop (lines 53 to 90) and the function, operation for operation as
  above, on these values. The arguments are read as floats by \<open>fl\<close>.
\<close>

definition loop_body_ieee ::
  "real \<Rightarrow> real \<Rightarrow> real \<Rightarrow> real \<Rightarrow> real \<Rightarrow> int \<Rightarrow> loop_state_ieee \<Rightarrow> loop_state_ieee" where
  "loop_body_ieee salary_growth_rate asset_growth_rate dividend_yield tax_rate expense_ratio
       year st =
     (let dividend_income = fmul (current_net_worth_ieee st) (fl dividend_yield);
          total_income = fadd (current_salary_ieee st) dividend_income;
          after_tax_income = fmul total_income (fsub (Fin 1) (fl tax_rate));
          expenses = fmul after_tax_income (fl expense_ratio);
          savings = fsub after_tax_income expenses;
          row = \<lparr>Year_ieee = year,
                 Net_Worth_ieee = fround2 (current_net_worth_ieee st),
                 Salary_ieee = fround2 (current_salary_ieee st),
                 Dividend_Income_ieee = fround2 dividend_income,
                 Total_Income_ieee = fround2 total_income,
                 After_tax_Income_ieee = fround2 after_tax_income,
                 Expenses_ieee = fround2 expenses,
                 Savings_ieee = fround2 savings\<rparr>
      in \<lparr>data_ieee = data_ieee st @ [row],
          current_net_worth_ieee =
            fmul (fadd (current_net_worth_ieee st) savings) (fadd (Fin 1) (fl asset_growth_rate)),
          current_salary_ieee =
            fmul (current_salary_ieee st) (fadd (Fin 1) (fl salary_growth_rate))\<rparr>)"

definition init_state_ieee :: "real \<Rightarrow> real \<Rightarrow> loop_state_ieee" where
  "init_state_ieee initial_net_worth initial_salary =
     \<lparr>data_ieee = [], current_net_worth_ieee = fl initial_net_worth,
      current_salary_ieee = fl initial_salary\<rparr>"

definition run_loop_ieee ::
  "real \<Rightarrow> real \<Rightarrow> real \<Rightarrow> real \<Rightarrow> real \<Rightarrow> real \<Rightarrow> real \<Rightarrow> int list \<Rightarrow> loop_state_ieee" where
  "run_loop_ieee initial_net_worth initial_salary salary_growth_rate asset_growth_rate
       dividend_yield tax_rate expense_ratio years =
     fold (loop_body_ieee salary_growth_rate asset_growth_rate dividend_yield tax_rate
             expense_ratio)
       years (init_state_ieee initial_net_worth initial_salary)"

definition calculate_net_worth_projection_ieee ::
  "real \<Rightarrow> real \<Rightarrow> real \<Rightarrow> real \<Rightarrow> real \<Rightarrow> real \<Rightarrow> real \<Rightarrow> int \<Rightarrow> int
     \<Rightarrow> error + current_state_ieee list" where
  "calculate_net_worth_projection_ieee initial_net_worth initial_salary salary_growth_rate
       asset_growth_rate dividend_yield tax_rate expense_ratio start_year end_year =
     Inr (data_ieee (run_loop_ieee initial_net_worth initial_salary salary_growth_rate
                       asset_growth_rate dividend_yield tax_rate expense_ratio
                       [start_year..end_year]))"

definition state_after_ieee ::
  "real \<Rightarrow> real \<Rightarrow> real \<Rightarrow> real \<Rightarrow> real \<Rightarrow> real \<Rightarrow> real \<Rightarrow> int \<Rightarrow> int \<Rightarrow> nat
     \<Rightarrow> loop_state_ieee" where
  "state_after_ieee initial_net_worth initial_salary salary_growth_rate asset_growth_rate
       dividend_yield tax_rate expense_ratio start_year end_year k =
     run_loop_ieee initial_net_worth initial_salary salary_growth_rate asset_growth_rate
       dividend_yield tax_rate expense_ratio (take k [start_year..end_year])"

text \<open>The row that a pass appends, from the accumulators it starts with.\<close>

definition row_of_ieee :: "real \<Rightarrow> real \<Rightarrow> real \<Rightarrow> int \<Rightarrow> loop_state_ieee \<Rightarrow> current_state_ieee" where
  "row_of_ieee dividend_yield tax_rate expense_ratio year st =
     (let dividend_income = fmul (current_net_worth_ieee st) (fl dividend_yield);
          total_income = fadd (current_salary_ieee st) dividend_income;
          after_tax_income = fmul total_income (fsub (Fin 1) (fl tax_rate));
          expenses = fmul after_tax_income (fl expense_ratio);
          savings = fsub after_tax_income expenses
      in \<lparr>Year_ieee = year,
          Net_Worth_ieee = fround2 (current_net_worth_ieee st),
          Salary_ieee = fround2 (current_salary_ieee st),
          Dividend_Income_ieee = fround2 dividend_income,
          Total_Income_ieee = fround2 total_income,
          After_tax_Income_ieee = fround2 after_tax_income,
          Expenses_ieee = fround2 expenses,
          Savings_ieee = fround2 savings\<rparr>)"

text \<open>
  A value that is a finite nonnegative value below the overflow threshold, \<open>+inf\<close> or NaN;
  and a value that, if finite, lies inside the range of the doubles.
\<close>

fun nn :: "pyfloat \<Rightarrow> bool" where
  "nn (Fin x) = (0 \<le> x \<and> x < overflow_threshold)"
| "nn PInf = True"
| "nn NInf = False"
| "nn NaN = True"

fun in_range :: "pyfloat \<Rightarrow> bool" where
  "in_range (Fin x) = (- overflow_threshold < x \<and> x < overflow_threshold)"
| "in_range _ = True"

section \<open>Properties\<close>

subsection \<open>Rounding\<close>

lemma round_half_even_bounds:
  "\<lfloor>y\<rfloor> \<le> round_half_even y \<and> round_half_even y \<le> \<lfloor>y\<rfloor> + 1"
  by (simp add: round_half_even_def Let_def)

lemma round_half_even_of_int: "round_half_even (of_int n) = n"
  by (simp add: round_half_even_def Let_def)

lemma round_half_even_mono:
  assumes "x \<le> y"
  shows "round_half_even x \<le> round_half_even y"
proof (cases "\<lfloor>x\<rfloor> = \<lfloor>y\<rfloor>")
  case True
  with assms have "x - of_int \<lfloor>x\<rfloor> \<le> y - of_int \<lfloor>y\<rfloor>" by simp
  with True show ?thesis
    by (auto simp add: round_half_even_def Let_def)
next
  case False
  from assms have "\<lfloor>x\<rfloor> \<le> \<lfloor>y\<rfloor>" by (rule floor_mono)
  with False have "\<lfloor>x\<rfloor> + 1 \<le> \<lfloor>y\<rfloor>" by simp
  moreover have "round_half_even x \<le> \<lfloor>x\<rfloor> + 1" "\<lfloor>y\<rfloor> \<le> round_half_even y"
    using round_half_even_bounds by blast+
  ultimately show ?thesis by linarith
qed

lemma py_round2_mono: "x \<le> y \<Longrightarrow> py_round2 x \<le> py_round2 y"
  by (simp add: py_round2_def round_half_even_mono divide_right_mono)

lemma py_round2_0: "py_round2 0 = 0"
  using round_half_even_of_int [of 0] by (simp add: py_round2_def)

lemma py_round2_nonneg: "0 \<le> x \<Longrightarrow> 0 \<le> py_round2 x"
  using py_round2_mono [of 0 x] by (simp add: py_round2_0)

subsection \<open>One pass and the whole loop\<close>

lemma data_loop_body:
  "data (loop_body sg ag dy tr er y st) = data st @ [row_of dy tr er y st]"
  by (simp add: loop_body_def row_of_def Let_def)

lemma net_worth_loop_body:
  "current_net_worth (loop_body sg ag dy tr er y st) =
     (current_net_worth st
      + ((current_salary st + current_net_worth st * dy) * (1 - tr)
         - (current_salary st + current_net_worth st * dy) * (1 - tr) * er)) * (1 + ag)"
  by (simp add: loop_body_def Let_def)

lemma salary_loop_body:
  "current_salary (loop_body sg ag dy tr er y st) = current_salary st * (1 + sg)"
  by (simp add: loop_body_def Let_def)

lemma length_data_fold:
  "length (data (fold (loop_body sg ag dy tr er) ys st)) = length (data st) + length ys"
  by (induction ys arbitrary: st) (simp_all add: data_loop_body)

lemma nth_data_fold:
  "k < length ys \<Longrightarrow>
   data (fold (loop_body sg ag dy tr er) ys st) ! (length (data st) + k) =
     row_of dy tr er (ys ! k) (fold (loop_body sg ag dy tr er) (take k ys) st)"
proof (induction ys arbitrary: k rule: rev_induct)
  case Nil
  then show ?case by simp
next
  case (snoc y ys)
  let ?f = "loop_body sg ag dy tr er"
  have len: "length (data (fold ?f ys st)) = length (data st) + length ys"
    by (rule length_data_fold)
  show ?case
  proof (cases "k < length ys")
    case True
    with snoc.IH [of k] len show ?thesis
      by (simp add: data_loop_body nth_append)
  next
    case False
    with snoc.prems have "k = length ys" by simp
    with len show ?thesis
      by (simp add: data_loop_body nth_append)
  qed
qed

lemma length_run_loop:
  "length (data (run_loop inw isal sg ag dy tr er ys)) = length ys"
  by (simp add: run_loop_def length_data_fold init_state_def)

lemma nth_run_loop:
  "k < length ys \<Longrightarrow>
   data (run_loop inw isal sg ag dy tr er ys) ! k =
     row_of dy tr er (ys ! k) (run_loop inw isal sg ag dy tr er (take k ys))"
  using nth_data_fold [of k ys sg ag dy tr er "init_state inw isal"]
  by (simp add: run_loop_def init_state_def)

lemma state_after_0:
  "state_after inw isal sg ag dy tr er s e 0 = init_state inw isal"
  by (simp add: state_after_def run_loop_def)

lemma state_after_Suc:
  assumes "int k \<le> e - s"
  shows "state_after inw isal sg ag dy tr er s e (Suc k) =
           loop_body sg ag dy tr er (s + int k) (state_after inw isal sg ag dy tr er s e k)"
proof -
  from assms have k: "k < length [s..e]" by simp
  then have "take (Suc k) [s..e] = take k [s..e] @ [[s..e] ! k]"
    by (rule take_Suc_conv_app_nth)
  moreover from assms have "[s..e] ! k = s + int k" by simp
  ultimately show ?thesis
    by (simp add: state_after_def run_loop_def)
qed

lemma nth_projection:
  assumes "int k \<le> e - s"
  shows "data (run_loop inw isal sg ag dy tr er [s..e]) ! k =
           row_of dy tr er (s + int k) (state_after inw isal sg ag dy tr er s e k)"
proof -
  from assms have "k < length [s..e]" and "[s..e] ! k = s + int k" by simp_all
  then show ?thesis
    using nth_run_loop [of k "[s..e]" inw isal sg ag dy tr er]
    by (simp add: state_after_def)
qed

lemma take_data_run_loop:
  "data (run_loop inw isal sg ag dy tr er (take k ys)) =
     take k (data (run_loop inw isal sg ag dy tr er ys))"
proof (rule nth_equalityI)
  show "length (data (run_loop inw isal sg ag dy tr er (take k ys))) =
          length (take k (data (run_loop inw isal sg ag dy tr er ys)))"
    by (simp add: length_run_loop)
next
  fix i
  assume "i < length (data (run_loop inw isal sg ag dy tr er (take k ys)))"
  then have i: "i < k" "i < length ys"
    by (simp_all add: length_run_loop)
  then have "take i (take k ys) = take i ys" "take k ys ! i = ys ! i"
    by (simp_all add: min_def)
  with i show "data (run_loop inw isal sg ag dy tr er (take k ys)) ! i =
          take k (data (run_loop inw isal sg ag dy tr er ys)) ! i"
    by (simp add: nth_run_loop)
qed

subsection \<open>Closed forms of the accumulators\<close>

lemma salary_state_after:
  "int k \<le> e - s + 1 \<Longrightarrow>
   current_salary (state_after inw isal sg ag dy tr er s e k) = isal * (1 + sg) ^ k"
proof (induction k)
  case 0
  show ?case by (simp add: state_after_0 init_state_def)
next
  case (Suc k)
  then have "int k \<le> e - s" by simp
  from state_after_Suc [OF this] Suc show ?case
    by (simp add: salary_loop_body)
qed

subsection \<open>The sensitivity loops\<close>

lemma append_each_Inr:
  "(\<And>x. x \<in> set xs \<Longrightarrow> f x = Inr (g x)) \<Longrightarrow> append_each f xs acc = Inr (acc @ map g xs)"
  by (induction xs arbitrary: acc) simp_all

lemma cell_Inr:
  assumes "start_year \<le> end_year"
  shows "cell inw isal sg dy er start_year end_year growth tax =
           Inr (Net_Worth (last (data (run_loop inw isal (sg / 100) (of_int growth / 100)
                  (dy / 100) (of_int tax / 100) (er / 100) [start_year..end_year]))))"
proof -
  let ?result = "data (run_loop inw isal (sg / 100) (of_int growth / 100)
                  (dy / 100) (of_int tax / 100) (er / 100) [start_year..end_year])"
  from assms have "0 < length ?result" by (simp add: length_run_loop)
  then have "?result \<noteq> []" by auto
  then show ?thesis
    by (simp add: cell_def calculate_net_worth_projection_def iloc_last_def split: list.splits)
qed

lemma grids:
  "tax_rates = [20, 25, 30, 35, 40, 45, 50]"
  "growth_rates = [4, 6, 8, 10, 12, 14, 16, 18, 20]"
  by (simp_all add: tax_rates_def growth_rates_def py_range_def upto.simps)

subsection \<open>Special values\<close>

lemma overflow_threshold_gt: "1 < overflow_threshold"
  by (simp add: overflow_threshold_def)

lemma overflow_threshold_pos: "0 < overflow_threshold"
  by (simp add: overflow_threshold_def)

lemma fl_in_range: "- overflow_threshold < x \<Longrightarrow> x < overflow_threshold \<Longrightarrow> fl x = Fin x"
  by (simp add: fl_def)

lemma fl_0: "fl 0 = Fin 0"
  using overflow_threshold_pos by (simp add: fl_def)

lemma fl_1: "fl 1 = Fin 1"
  using overflow_threshold_gt by (simp add: fl_def)

lemma nn_fl: "0 \<le> x \<Longrightarrow> nn (fl x)"
  using overflow_threshold_pos by (simp add: fl_def)

lemma in_range_fl: "in_range (fl x)"
  by (simp add: fl_def)

lemma nn_in_range: "nn v \<Longrightarrow> in_range v"
  using overflow_threshold_pos by (cases v) simp_all

lemma nn_fadd: "nn a \<Longrightarrow> nn b \<Longrightarrow> nn (fadd a b)"
  by (cases a; cases b) (simp_all add: nn_fl)

lemma nn_fmul: "nn a \<Longrightarrow> nn b \<Longrightarrow> nn (fmul a b)"
  by (cases a; cases b) (simp_all add: nn_fl)

lemma in_range_fadd: "in_range (fadd a b)"
  by (cases a; cases b) (simp_all add: in_range_fl)

lemma in_range_fmul: "in_range (fmul a b)"
  by (cases a; cases b) (simp_all add: in_range_fl)

lemma nn_one_minus: "0 \<le> t \<Longrightarrow> t \<le> 1 \<Longrightarrow> nn (fsub (Fin 1) (fl t))"
proof -
  assume t: "0 \<le> t" "t \<le> 1"
  with overflow_threshold_gt have "fl t = Fin t" by (simp add: fl_def)
  with t show ?thesis by (simp add: fsub_def nn_fl)
qed

lemma one_minus: "0 \<le> t \<Longrightarrow> t \<le> 1 \<Longrightarrow> fsub (Fin 1) (fl t) = Fin (1 - t)"
  using overflow_threshold_gt by (simp add: fl_def fsub_def)

lemma nn_one_plus: "-1 \<le> g \<Longrightarrow> nn (fadd (Fin 1) (fl g))"
  using overflow_threshold_gt by (simp add: fl_def nn_fl)

lemma nn_savings:
  assumes "nn a" and "0 \<le> er" and "er \<le> 1"
  shows "nn (fsub a (fmul a (fl er)))"
proof -
  from assms(2,3) overflow_threshold_gt have er: "fl er = Fin er" by (simp add: fl_def)
  show ?thesis
  proof (cases a)
    case (Fin x)
    with assms(1) have x: "0 \<le> x" "x < overflow_threshold" by simp_all
    with assms(2,3) have "x * er \<le> x * 1" by (intro mult_left_mono) simp_all
    moreover from x assms(2) have "0 \<le> x * er" by simp
    ultimately have "fl (x * er) = Fin (x * er)" and "0 \<le> x - x * er"
      using x overflow_threshold_pos by (simp_all add: fl_def)
    with Fin er show ?thesis by (simp add: fsub_def nn_fl)
  next
    case PInf
    with er show ?thesis by (simp add: fsub_def)
  next
    case NInf
    with assms(1) show ?thesis by simp
  next
    case NaN
    then show ?thesis by (simp add: fsub_def)
  qed
qed

lemma nn_fround2: "nn v \<Longrightarrow> isnan (fround2 v) \<or> ge0 (fround2 v)"
  by (cases v) (simp_all add: py_round2_nonneg)

lemma nn_isnan_or_ge0: "nn v \<Longrightarrow> isnan v \<or> ge0 v"
  by (cases v) simp_all

lemma isfinite_fround2: "isfinite (fround2 v) = isfinite v"
  by (cases v) simp_all

lemma fadd_0: "in_range v \<Longrightarrow> fadd v (Fin 0) = v"
  by (cases v) (simp_all add: fl_def)

lemma fmul_1: "in_range v \<Longrightarrow> fmul v (Fin 1) = v"
  by (cases v) (simp_all add: fl_def)

lemma fsub_self: "isfinite v \<Longrightarrow> fsub v v = Fin 0"
  by (cases v) (simp_all add: fsub_def fl_0)

lemma fadd_finite: "nn a \<Longrightarrow> nn b \<Longrightarrow> isfinite (fadd a b) \<Longrightarrow> isfinite a \<and> isfinite b"
  by (cases a; cases b) simp_all

lemma finite_nn_fmul_le:
  assumes "nn a" and "isfinite a" and "0 \<le> c" and "c \<le> 1"
  shows "\<exists>x. fmul a (Fin c) = Fin x \<and> 0 \<le> x \<and> x < overflow_threshold"
proof -
  from assms(1,2) obtain y where a: "a = Fin y" and y: "0 \<le> y" "y < overflow_threshold"
    by (cases a) simp_all
  from y assms(3,4) have "y * c \<le> y * 1" by (intro mult_left_mono) simp_all
  moreover from y assms(3) have "0 \<le> y * c" by simp
  ultimately have "fl (y * c) = Fin (y * c)" "y * c < overflow_threshold"
    using y overflow_threshold_pos by (simp_all add: fl_def)
  with a \<open>0 \<le> y * c\<close> show ?thesis by simp
qed

lemma fl_small: "- (10 ^ 9) \<le> x \<Longrightarrow> x \<le> 10 ^ 9 \<Longrightarrow> fl x = Fin x"
proof -
  have "(10::real) ^ 9 < overflow_threshold"
    by (simp add: overflow_threshold_def)
  then show "- (10 ^ 9) \<le> x \<Longrightarrow> x \<le> 10 ^ 9 \<Longrightarrow> fl x = Fin x"
    by (simp add: fl_def)
qed

lemma fl_overflow: "overflow_threshold \<le> x \<Longrightarrow> fl x = PInf"
  by (simp add: fl_def)

subsection \<open>The loop on the special values\<close>

lemma data_loop_body_ieee:
  "data_ieee (loop_body_ieee sg ag dy tr er y st) = data_ieee st @ [row_of_ieee dy tr er y st]"
  by (simp add: loop_body_ieee_def row_of_ieee_def Let_def)

lemma net_worth_loop_body_ieee:
  "current_net_worth_ieee (loop_body_ieee sg ag dy tr er y st) =
     fmul (fadd (current_net_worth_ieee st)
             (fsub (fmul (fadd (current_salary_ieee st)
                            (fmul (current_net_worth_ieee st) (fl dy)))
                      (fsub (Fin 1) (fl tr)))
                (fmul (fmul (fadd (current_salary_ieee st)
                               (fmul (current_net_worth_ieee st) (fl dy)))
                         (fsub (Fin 1) (fl tr)))
                   (fl er))))
       (fadd (Fin 1) (fl ag))"
  by (simp add: loop_body_ieee_def Let_def)

lemma salary_loop_body_ieee:
  "current_salary_ieee (loop_body_ieee sg ag dy tr er y st) =
     fmul (current_salary_ieee st) (fadd (Fin 1) (fl sg))"
  by (simp add: loop_body_ieee_def Let_def)

lemma length_data_fold_ieee:
  "length (data_ieee (fold (loop_body_ieee sg ag dy tr er) ys st)) =
     length (data_ieee st) + length ys"
  by (induction ys arbitrary: st) (simp_all add: data_loop_body_ieee)

lemma nth_data_fold_ieee:
  "k < length ys \<Longrightarrow>
   data_ieee (fold (loop_body_ieee sg ag dy tr er) ys st) ! (length (data_ieee st) + k) =
     row_of_ieee dy tr er (ys ! k) (fold (loop_body_ieee sg ag dy tr er) (take k ys) st)"
proof (induction ys arbitrary: k rule: rev_induct)
  case Nil
  then show ?case by simp
next
  case (snoc y ys)
  let ?f = "loop_body_ieee sg ag dy tr er"
  have len: "length (data_ieee (fold ?f ys st)) = length (data_ieee st) + length ys"
    by (rule length_data_fold_ieee)
  show ?case
  proof (cases "k < length ys")
    case True
    with snoc.IH [of k] len show ?thesis
      by (simp add: data_loop_body_ieee nth_append)
  next
    case False
    with snoc.prems have "k = length ys" by simp
    with len show ?thesis
      by (simp add: data_loop_body_ieee nth_append)
  qed
qed

lemma length_run_loop_ieee:
  "length (data_ieee (run_loop_ieee inw isal sg ag dy tr er ys)) = length ys"
  by (simp add: run_loop_ieee_def length_data_fold_ieee init_state_ieee_def)

lemma nth_projection_ieee:
  assumes "k < length (data_ieee (run_loop_ieee inw isal sg ag dy tr er [s..e]))"
  shows "data_ieee (run_loop_ieee inw isal sg ag dy tr er [s..e]) ! k =
           row_of_ieee dy tr er (s + int k) (state_after_ieee inw isal sg ag dy tr er s e k)"
proof -
  from assms have k: "k < length [s..e]" by (simp add: length_run_loop_ieee)
  then have "[s..e] ! k = s + int k" by simp
  with k show ?thesis
    using nth_data_fold_ieee [of k "[s..e]" sg ag dy tr er "init_state_ieee inw isal"]
    by (simp add: state_after_ieee_def run_loop_ieee_def init_state_ieee_def)
qed

lemma state_after_ieee_Suc:
  assumes "k < length (data_ieee (run_loop_ieee inw isal sg ag dy tr er [s..e]))"
  shows "state_after_ieee inw isal sg ag dy tr er s e (Suc k) =
           loop_body_ieee sg ag dy tr er (s + int k)
             (state_after_ieee inw isal sg ag dy tr er s e k)"
proof -
  from assms have k: "k < length [s..e]" by (simp add: length_run_loop_ieee)
  then have "take (Suc k) [s..e] = take k [s..e] @ [[s..e] ! k]"
    by (rule take_Suc_conv_app_nth)
  moreover from k have "[s..e] ! k = s + int k" by simp
  ultimately show ?thesis
    by (simp add: state_after_ieee_def run_loop_ieee_def)
qed

lemma loop_body_ieee_nn:
  assumes "nn (current_net_worth_ieee st)" and "nn (current_salary_ieee st)"
    and "0 \<le> dy" and "0 \<le> tr" and "tr \<le> 1" and "0 \<le> er" and "er \<le> 1"
    and "-1 \<le> ag" and "-1 \<le> sg"
  shows "nn (current_net_worth_ieee (loop_body_ieee sg ag dy tr er y st))
         \<and> nn (current_salary_ieee (loop_body_ieee sg ag dy tr er y st))"
proof -
  let ?ati = "fmul (fadd (current_salary_ieee st) (fmul (current_net_worth_ieee st) (fl dy)))
                (fsub (Fin 1) (fl tr))"
  from assms have ati: "nn ?ati"
    by (intro nn_fmul nn_fadd nn_fl nn_one_minus)
  then have "nn (fsub ?ati (fmul ?ati (fl er)))"
    using assms(6,7) by (rule nn_savings)
  with assms(1,8) have "nn (fmul (fadd (current_net_worth_ieee st)
                                   (fsub ?ati (fmul ?ati (fl er))))
                              (fadd (Fin 1) (fl ag)))"
    by (intro nn_fmul nn_fadd nn_one_plus)
  moreover from assms(2,9) have "nn (fmul (current_salary_ieee st) (fadd (Fin 1) (fl sg)))"
    by (intro nn_fmul nn_one_plus)
  ultimately show ?thesis
    by (simp only: net_worth_loop_body_ieee salary_loop_body_ieee)
qed

lemma fold_ieee_nn:
  assumes "0 \<le> dy" and "0 \<le> tr" and "tr \<le> 1" and "0 \<le> er" and "er \<le> 1"
    and "-1 \<le> ag" and "-1 \<le> sg"
  shows "nn (current_net_worth_ieee st) \<Longrightarrow> nn (current_salary_ieee st) \<Longrightarrow>
         nn (current_net_worth_ieee (fold (loop_body_ieee sg ag dy tr er) ys st))
         \<and> nn (current_salary_ieee (fold (loop_body_ieee sg ag dy tr er) ys st))"
proof (induction ys arbitrary: st)
  case Nil
  then show ?case by simp
next
  case (Cons y ys)
  from loop_body_ieee_nn [OF Cons.prems assms, of y]
  show ?case by (simp add: Cons.IH)
qed

lemma run_loop_ieee_nn:
  assumes "0 \<le> inw" and "0 \<le> isal"
    and "0 \<le> dy" and "0 \<le> tr" and "tr \<le> 1" and "0 \<le> er" and "er \<le> 1"
    and "-1 \<le> ag" and "-1 \<le> sg"
  shows "nn (current_net_worth_ieee (run_loop_ieee inw isal sg ag dy tr er ys))
         \<and> nn (current_salary_ieee (run_loop_ieee inw isal sg ag dy tr er ys))"
  unfolding run_loop_ieee_def
  by (rule fold_ieee_nn [OF assms(3-9)]) (simp_all add: init_state_ieee_def nn_fl assms(1,2))

text \<open>The values of a row built from nonnegative accumulators.\<close>

lemma row_of_ieee_nn:
  assumes "nn (current_net_worth_ieee st)" and "nn (current_salary_ieee st)"
    and "0 \<le> dy" and "0 \<le> tr" and "tr \<le> 1" and "0 \<le> er" and "er \<le> 1"
  shows "\<exists>nw sal d t a x sv.
           row_of_ieee dy tr er y st =
             \<lparr>Year_ieee = y, Net_Worth_ieee = fround2 nw, Salary_ieee = fround2 sal,
              Dividend_Income_ieee = fround2 d, Total_Income_ieee = fround2 t,
              After_tax_Income_ieee = fround2 a, Expenses_ieee = fround2 x,
              Savings_ieee = fround2 sv\<rparr>
           \<and> nn nw \<and> nn sal \<and> nn d \<and> nn t \<and> nn a \<and> nn x \<and> nn sv
           \<and> (isfinite nw \<and> isfinite t \<longrightarrow>
                isfinite sal \<and> isfinite d \<and> isfinite a \<and> isfinite x \<and> isfinite sv)"
proof -
  let ?nw = "current_net_worth_ieee st" and ?sal = "current_salary_ieee st"
  let ?d = "fmul ?nw (fl dy)"
  let ?t = "fadd ?sal ?d"
  let ?a = "fmul ?t (fsub (Fin 1) (fl tr))"
  let ?x = "fmul ?a (fl er)"
  let ?sv = "fsub ?a ?x"
  from assms(1,3) have d: "nn ?d" by (simp add: nn_fmul nn_fl)
  with assms(2) have t: "nn ?t" by (simp add: nn_fadd)
  with assms(4,5) have a: "nn ?a" by (simp add: nn_fmul nn_one_minus)
  with assms(6) have x: "nn ?x" by (simp add: nn_fmul nn_fl)
  from a assms(6,7) have sv: "nn ?sv" by (rule nn_savings)
  have er: "fl er = Fin er"
    using assms(6,7) overflow_threshold_gt by (simp add: fl_def)
  have fin: "isfinite ?sal \<and> isfinite ?d \<and> isfinite ?a \<and> isfinite ?x \<and> isfinite ?sv"
    if "isfinite ?t"
  proof -
    from fadd_finite [OF assms(2) d that] have sd: "isfinite ?sal" "isfinite ?d" by simp_all
    have "0 \<le> 1 - tr" "1 - tr \<le> 1" using assms(4,5) by simp_all
    from finite_nn_fmul_le [OF t that this] obtain u where
      u: "fmul ?t (Fin (1 - tr)) = Fin u" "0 \<le> u" "u < overflow_threshold" by blast
    then have a': "?a = Fin u"
      by (simp add: one_minus assms(4,5))
    with a have fa: "isfinite ?a" by simp
    from finite_nn_fmul_le [OF a fa assms(6,7)] obtain v where
      v: "fmul ?a (Fin er) = Fin v" "0 \<le> v" "v < overflow_threshold" by blast
    then have x': "?x = Fin v" by (simp add: er)
    have "?sv = fsub ?a (Fin v)" by (simp only: x')
    also have "\<dots> = fsub (Fin u) (Fin v)" by (simp only: a')
    also have "\<dots> = fl (u - v)" by (simp add: fsub_def)
    also have "\<dots> = Fin (u - v)"
      using u(2,3) v(2,3) by (intro fl_in_range) simp_all
    finally have "isfinite ?sv" by simp
    moreover from x' have "isfinite ?x" by simp
    ultimately show ?thesis using sd fa by blast
  qed
  have "row_of_ieee dy tr er y st =
          \<lparr>Year_ieee = y, Net_Worth_ieee = fround2 ?nw, Salary_ieee = fround2 ?sal,
           Dividend_Income_ieee = fround2 ?d, Total_Income_ieee = fround2 ?t,
           After_tax_Income_ieee = fround2 ?a, Expenses_ieee = fround2 ?x,
           Savings_ieee = fround2 ?sv\<rparr>"
    by (simp add: row_of_ieee_def Let_def)
  with assms(1,2) d t a x sv fin show ?thesis by blast
qed

lemma fold_ieee_in_range:
  "in_range (current_net_worth_ieee st) \<Longrightarrow>
   in_range (current_net_worth_ieee (fold (loop_body_ieee sg ag dy tr er) ys st))"
proof (induction ys arbitrary: st)
  case Nil
  then show ?case by simp
next
  case (Cons y ys)
  have "in_range (current_net_worth_ieee (loop_body_ieee sg ag dy tr er y st))"
    by (simp only: net_worth_loop_body_ieee in_range_fmul)
  then show ?case by (simp add: Cons.IH)
qed

lemma state_after_ieee_in_range:
  "in_range (current_net_worth_ieee (state_after_ieee inw isal sg ag dy tr er s e k))"
  unfolding state_after_ieee_def run_loop_ieee_def
  by (rule fold_ieee_in_range) (simp add: init_state_ieee_def in_range_fl)

text \<open>
  A run that overflows: from a net worth \<open>x\<close> inside the range whose elevenfold is not,
  with no salary and no dividends, the second year starts from \<open>+inf\<close> and its dividend
  income is \<open>inf * 0\<close>.
\<close>

lemmas ieee_unfold =
  calculate_net_worth_projection_ieee_def run_loop_ieee_def init_state_ieee_def
  loop_body_ieee_def Let_def fsub_def upto.simps

lemma overflow_run:
  assumes "0 \<le> x" and "x < overflow_threshold" and "overflow_threshold \<le> x * 11"
    and "0 \<le> er" and "er \<le> 1"
  shows "calculate_net_worth_projection_ieee x 0 0 10 0 (1 / 4) er 2024 2025
     = Inr [\<lparr>Year_ieee = 2024, Net_Worth_ieee = Fin (py_round2 x), Salary_ieee = Fin 0,
              Dividend_Income_ieee = Fin 0, Total_Income_ieee = Fin 0,
              After_tax_Income_ieee = Fin 0, Expenses_ieee = Fin 0, Savings_ieee = Fin 0\<rparr>,
            \<lparr>Year_ieee = 2025, Net_Worth_ieee = PInf, Salary_ieee = Fin 0,
              Dividend_Income_ieee = NaN, Total_Income_ieee = NaN,
              After_tax_Income_ieee = NaN, Expenses_ieee = NaN, Savings_ieee = NaN\<rparr>]"
proof -
  from assms(1,2) overflow_threshold_pos have x: "fl x = Fin x"
    by (intro fl_in_range) simp_all
  from assms(4,5) have er: "fl er = Fin er"
    by (intro fl_small) simp_all
  from assms(3) have big: "fl (x * 11) = PInf"
    by (rule fl_overflow)
  show ?thesis
    by (simp add: ieee_unfold x er big fl_0 fl_small py_round2_0)
qed

lemma e308: "(0::real) \<le> 10 ^ 308" "(10::real) ^ 308 < overflow_threshold"
  "overflow_threshold \<le> 10 ^ 308 * 11"
  by (simp_all add: overflow_threshold_def)

lemma round_e308: "py_round2 (10 ^ 308) = 10 ^ 308"
  by (simp add: py_round2_def round_half_even_def Let_def)

section \<open>The claims\<close>

subsection \<open>Rows and the running state\<close>

text \<open>
  Claim C1, as the code has it. When \<open>start_year \<le> end_year\<close> the call returns a non-empty
  frame, and the row of index \<open>i\<close> is built from the accumulators as they stand before the
  pass of that year updates them: with \<open>net_worth\<close> and \<open>salary\<close> the accumulators,
  \<open>dividend_income = net_worth * dividend_yield\<close>,
  \<open>total_income = salary + dividend_income\<close>,
  \<open>after_tax_income = total_income * (1 - tax_rate)\<close> (one rate for salary and dividends),
  \<open>expenses = after_tax_income * expense_ratio\<close> and
  \<open>savings = after_tax_income - expenses\<close>, the row holds the year and each of these seven
  values rounded to two decimals. Before the first pass the accumulators are
  \<open>initial_net_worth\<close> and \<open>initial_salary\<close>, so the first row holds
  \<open>round(initial_net_worth, 2)\<close> and \<open>round(initial_salary, 2)\<close>.
\<close>

theorem rows_from_running_state:
  assumes "start_year \<le> end_year"
  shows "\<exists>result.
           calculate_net_worth_projection initial_net_worth initial_salary salary_growth_rate
             asset_growth_rate dividend_yield tax_rate expense_ratio start_year end_year
             = Inr result
           \<and> result \<noteq> []
           \<and> (\<forall>i < length result.
                 (let st = state_after initial_net_worth initial_salary salary_growth_rate
                             asset_growth_rate dividend_yield tax_rate expense_ratio
                             start_year end_year i;
                      net_worth = current_net_worth st;
                      salary = current_salary st;
                      dividend_income = net_worth * dividend_yield;
                      total_income = salary + dividend_income;
                      after_tax_income = total_income * (1 - tax_rate);
                      expenses = after_tax_income * expense_ratio;
                      savings = after_tax_income - expenses
                  in result ! i =
                       \<lparr>Year = start_year + int i,
                        Net_Worth = py_round2 net_worth,
                        Salary = py_round2 salary,
                        Dividend_Income = py_round2 dividend_income,
                        Total_Income = py_round2 total_income,
                        After_tax_Income = py_round2 after_tax_income,
                        Expenses = py_round2 expenses,
                        Savings = py_round2 savings\<rparr>))
           \<and> current_net_worth
                 (state_after initial_net_worth initial_salary salary_growth_rate
                    asset_growth_rate dividend_yield tax_rate expense_ratio
                    start_year end_year 0) = initial_net_worth
           \<and> current_salary
                 (state_after initial_net_worth initial_salary salary_growth_rate
                    asset_growth_rate dividend_yield tax_rate expense_ratio
                    start_year end_year 0) = initial_salary
           \<and> Net_Worth (result ! 0) = py_round2 initial_net_worth
           \<and> Salary (result ! 0) = py_round2 initial_salary"
proof -
  let ?result = "data (run_loop initial_net_worth initial_salary salary_growth_rate
                   asset_growth_rate dividend_yield tax_rate expense_ratio
                   [start_year..end_year])"
  let ?st = "state_after initial_net_worth initial_salary salary_growth_rate
               asset_growth_rate dividend_yield tax_rate expense_ratio start_year end_year"
  have len: "int (length ?result) = end_year - start_year + 1"
    using assms by (simp add: length_run_loop)
  with assms have ne: "?result \<noteq> []" by auto
  have row: "?result ! i = row_of dividend_yield tax_rate expense_ratio (start_year + int i) (?st i)"
    if "i < length ?result" for i
  proof -
    from that len have "int i \<le> end_year - start_year" by simp
    then show ?thesis by (rule nth_projection)
  qed
  have st0: "current_net_worth (?st 0) = initial_net_worth"
            "current_salary (?st 0) = initial_salary"
    by (simp_all add: state_after_0 init_state_def)
  from ne have "0 < length ?result" by simp
  from row [OF this] st0
  have first: "Net_Worth (?result ! 0) = py_round2 initial_net_worth"
              "Salary (?result ! 0) = py_round2 initial_salary"
    by (simp_all add: row_of_def)
  from row have "\<forall>i < length ?result.
      ?result ! i = row_of dividend_yield tax_rate expense_ratio (start_year + int i) (?st i)"
    by blast
  with ne st0 first show ?thesis
    unfolding calculate_net_worth_projection_def row_of_def Let_def
    by blast
qed

text \<open>The same for a run over 2024 and 2025 that starts from a net worth of 1000.0625.\<close>

theorem rows_from_running_state_witness:
  "(2024::int) \<le> 2025
   \<and> calculate_net_worth_projection 1000.0625 50000 0 0.5 0 0.25 0.5 2024 2025
       = Inr [\<lparr>Year = 2024, Net_Worth = 1000.06, Salary = 50000, Dividend_Income = 0,
                Total_Income = 50000, After_tax_Income = 37500, Expenses = 18750,
                Savings = 18750\<rparr>,
              \<lparr>Year = 2025, Net_Worth = 29625.09, Salary = 50000, Dividend_Income = 0,
                Total_Income = 50000, After_tax_Income = 37500, Expenses = 18750,
                Savings = 18750\<rparr>]
   \<and> current_net_worth (state_after 1000.0625 50000 0 0.5 0 0.25 0.5 2024 2025 0) = 1000.0625
   \<and> current_salary (state_after 1000.0625 50000 0 0.5 0 0.25 0.5 2024 2025 0) = 50000"
proof -
  have h: "(2024::int) \<le> 2025" by simp
  have e: "calculate_net_worth_projection 1000.0625 50000 0 0.5 0 0.25 0.5 2024 2025
       = Inr [\<lparr>Year = 2024, Net_Worth = 1000.06, Salary = 50000, Dividend_Income = 0,
                Total_Income = 50000, After_tax_Income = 37500, Expenses = 18750,
                Savings = 18750\<rparr>,
              \<lparr>Year = 2025, Net_Worth = 29625.09, Salary = 50000, Dividend_Income = 0,
                Total_Income = 50000, After_tax_Income = 37500, Expenses = 18750,
                Savings = 18750\<rparr>]"
    by (simp add: calculate_net_worth_projection_def run_loop_def init_state_def loop_body_def
        Let_def py_round2_def round_half_even_def upto.simps)
  from rows_from_running_state [OF h, of "1000.0625" 50000 0 "0.5" 0 "0.25" "0.5"] e h
  show ?thesis by auto
qed

text \<open>
  The first row does not hold \<open>initial_net_worth\<close> itself when that has more than two
  decimals: from 1000.0625 (a binary fraction, so exact as a float too) the row holds
  1000.06.
\<close>

theorem first_row_counterexample:
  "calculate_net_worth_projection 1000.0625 50000 0 0.5 0 0.25 0.5 2024 2024
     = Inr [\<lparr>Year = 2024, Net_Worth = 1000.06, Salary = 50000, Dividend_Income = 0,
              Total_Income = 50000, After_tax_Income = 37500, Expenses = 18750,
              Savings = 18750\<rparr>]
   \<and> Net_Worth (hd (projr (calculate_net_worth_projection 1000.0625 50000 0 0.5 0 0.25 0.5
                              2024 2024))) \<noteq> 1000.0625"
  by (simp add: calculate_net_worth_projection_def run_loop_def init_state_def loop_body_def
        Let_def py_round2_def round_half_even_def upto.simps)

text \<open>
  Claim C2. For two consecutive rows \<open>k\<close> and \<open>k + 1\<close> of a returned frame, the
  accumulators advance by \<open>net_worth' = (net_worth + savings) * (1 + asset_growth_rate)\<close>
  and \<open>salary' = salary * (1 + salary_growth_rate)\<close>, where \<open>savings\<close> is the unrounded
  value of year \<open>k\<close>. No rounding occurs in the step: the rounded values exist only in the
  rows, each of which is the rounding of the accumulators of its year, and the states are
  those of the run itself (their \<open>data\<close> are the prefixes of the returned frame).
\<close>

theorem running_state_advance:
  assumes "calculate_net_worth_projection initial_net_worth initial_salary salary_growth_rate
             asset_growth_rate dividend_yield tax_rate expense_ratio start_year end_year
           = Inr result"
    and "Suc k < length result"
  shows "(let st = state_after initial_net_worth initial_salary salary_growth_rate
                     asset_growth_rate dividend_yield tax_rate expense_ratio
                     start_year end_year k;
              st' = state_after initial_net_worth initial_salary salary_growth_rate
                      asset_growth_rate dividend_yield tax_rate expense_ratio
                      start_year end_year (Suc k);
              dividend_income = current_net_worth st * dividend_yield;
              total_income = current_salary st + dividend_income;
              after_tax_income = total_income * (1 - tax_rate);
              expenses = after_tax_income * expense_ratio;
              savings = after_tax_income - expenses
          in current_net_worth st' = (current_net_worth st + savings) * (1 + asset_growth_rate)
             \<and> current_salary st' = current_salary st * (1 + salary_growth_rate)
             \<and> data st = take k result
             \<and> data st' = take (Suc k) result
             \<and> Net_Worth (result ! k) = py_round2 (current_net_worth st)
             \<and> Salary (result ! k) = py_round2 (current_salary st)
             \<and> Net_Worth (result ! Suc k) = py_round2 (current_net_worth st')
             \<and> Salary (result ! Suc k) = py_round2 (current_salary st'))"
proof -
  let ?st = "state_after initial_net_worth initial_salary salary_growth_rate
               asset_growth_rate dividend_yield tax_rate expense_ratio start_year end_year"
  from assms(1) have result:
    "result = data (run_loop initial_net_worth initial_salary salary_growth_rate
                      asset_growth_rate dividend_yield tax_rate expense_ratio
                      [start_year..end_year])"
    by (simp add: calculate_net_worth_projection_def)
  with assms(2) have "Suc k < length [start_year..end_year]"
    by (simp add: length_run_loop)
  then have k: "int k \<le> end_year - start_year" and k': "int (Suc k) \<le> end_year - start_year"
    by simp_all
  have step: "?st (Suc k) =
      loop_body salary_growth_rate asset_growth_rate dividend_yield tax_rate expense_ratio
        (start_year + int k) (?st k)"
    using k by (rule state_after_Suc)
  have prefix: "data (?st j) = take j result" for j
    by (simp add: result state_after_def take_data_run_loop)
  have rows: "result ! k = row_of dividend_yield tax_rate expense_ratio (start_year + int k) (?st k)"
    "result ! Suc k =
       row_of dividend_yield tax_rate expense_ratio (start_year + int (Suc k)) (?st (Suc k))"
    unfolding result by (rule nth_projection [OF k]) (rule nth_projection [OF k'])
  have nw: "current_net_worth (?st (Suc k)) =
     (current_net_worth (?st k)
      + ((current_salary (?st k) + current_net_worth (?st k) * dividend_yield) * (1 - tax_rate)
         - (current_salary (?st k) + current_net_worth (?st k) * dividend_yield) * (1 - tax_rate)
           * expense_ratio)) * (1 + asset_growth_rate)"
    unfolding step by (rule net_worth_loop_body)
  have sal: "current_salary (?st (Suc k)) = current_salary (?st k) * (1 + salary_growth_rate)"
    unfolding step by (rule salary_loop_body)
  have emitted: "Net_Worth (result ! k) = py_round2 (current_net_worth (?st k))"
    "Salary (result ! k) = py_round2 (current_salary (?st k))"
    "Net_Worth (result ! Suc k) = py_round2 (current_net_worth (?st (Suc k)))"
    "Salary (result ! Suc k) = py_round2 (current_salary (?st (Suc k)))"
    by (simp_all only: rows row_of_def current_state.simps)
  show ?thesis
    unfolding Let_def
    using nw sal prefix [of k] prefix [of "Suc k"] emitted by blast
qed

text \<open>
  At a start of 1000.0625 the first row shows 1000.06, and the accumulator of the second
  year is \<open>(1000.0625 + 18750) * 1.5 = 29625.09375\<close>, computed from the unrounded value.
\<close>

theorem running_state_advance_witness:
  "calculate_net_worth_projection 1000.0625 50000 0 0.5 0 0.25 0.5 2024 2025
     = Inr [\<lparr>Year = 2024, Net_Worth = 1000.06, Salary = 50000, Dividend_Income = 0,
              Total_Income = 50000, After_tax_Income = 37500, Expenses = 18750,
              Savings = 18750\<rparr>,
            \<lparr>Year = 2025, Net_Worth = 29625.09, Salary = 50000, Dividend_Income = 0,
              Total_Income = 50000, After_tax_Income = 37500, Expenses = 18750,
              Savings = 18750\<rparr>]
   \<and> current_net_worth (state_after 1000.0625 50000 0 0.5 0 0.25 0.5 2024 2025 (Suc 0))
       = (1000.0625 + 18750) * (1 + 0.5)
   \<and> current_net_worth (state_after 1000.0625 50000 0 0.5 0 0.25 0.5 2024 2025 (Suc 0))
       = 29625.09375
   \<and> current_salary (state_after 1000.0625 50000 0 0.5 0 0.25 0.5 2024 2025 (Suc 0))
       = 50000 * (1 + 0)"
proof -
  let ?rows = "[\<lparr>Year = 2024, Net_Worth = 1000.06, Salary = 50000, Dividend_Income = 0,
              Total_Income = 50000, After_tax_Income = 37500, Expenses = 18750,
              Savings = 18750\<rparr>,
            \<lparr>Year = 2025, Net_Worth = 29625.09, Salary = 50000, Dividend_Income = 0,
              Total_Income = 50000, After_tax_Income = 37500, Expenses = 18750,
              Savings = (18750::real)\<rparr>]"
  have e: "calculate_net_worth_projection 1000.0625 50000 0 0.5 0 0.25 0.5 2024 2025
             = Inr ?rows"
    by (simp add: calculate_net_worth_projection_def run_loop_def init_state_def loop_body_def
        Let_def py_round2_def round_half_even_def upto.simps)
  have l: "Suc 0 < length ?rows" by simp
  have s0: "current_net_worth (state_after 1000.0625 50000 0 0.5 0 0.25 0.5 2024 2025 0)
              = 1000.0625"
           "current_salary (state_after 1000.0625 50000 0 0.5 0 0.25 0.5 2024 2025 0) = 50000"
    by (simp_all add: state_after_0 init_state_def)
  from running_state_advance [OF e l] s0 e show ?thesis
    by (simp add: Let_def)
qed

subsection \<open>Number of rows and their years\<close>

text \<open>
  Claim C3. When \<open>start_year \<le> end_year\<close> the call returns exactly
  \<open>end_year - start_year + 1\<close> rows; the row of index \<open>i\<close> carries the year
  \<open>start_year + i\<close>, so the years start at \<open>start_year\<close> and grow by one from each row to
  the next.
\<close>

theorem projection_count_and_years:
  assumes "start_year \<le> end_year"
  shows "\<exists>result.
           calculate_net_worth_projection initial_net_worth initial_salary salary_growth_rate
             asset_growth_rate dividend_yield tax_rate expense_ratio start_year end_year
             = Inr result
           \<and> int (length result) = end_year - start_year + 1
           \<and> (\<forall>i < length result. Year (result ! i) = start_year + int i)
           \<and> (\<forall>i. Suc i < length result \<longrightarrow> Year (result ! Suc i) = Year (result ! i) + 1)"
proof -
  let ?result = "data (run_loop initial_net_worth initial_salary salary_growth_rate
                   asset_growth_rate dividend_yield tax_rate expense_ratio
                   [start_year..end_year])"
  have len: "int (length ?result) = end_year - start_year + 1"
    using assms by (simp add: length_run_loop)
  have year: "Year (?result ! i) = start_year + int i" if "i < length ?result" for i
  proof -
    from that len have "int i \<le> end_year - start_year" by simp
    then show ?thesis
      by (simp add: nth_projection row_of_def)
  qed
  have "Year (?result ! Suc i) = Year (?result ! i) + 1" if "Suc i < length ?result" for i
    using that year [of i] year [of "Suc i"] by simp
  with len year show ?thesis
    by (simp add: calculate_net_worth_projection_def)
qed

text \<open>The same at the years 2024 to 2026.\<close>

theorem projection_count_and_years_witness:
  "(2024::int) \<le> 2026
   \<and> (\<exists>result.
         calculate_net_worth_projection 100000 75000 0.03 0.07 0.02 0.25 0.70 2024 2026
           = Inr result
         \<and> length result = 3
         \<and> Year (result ! 0) = 2024 \<and> Year (result ! 1) = 2025 \<and> Year (result ! 2) = 2026)"
proof -
  have h: "(2024::int) \<le> 2026" by simp
  from projection_count_and_years [OF h, of 100000 75000 "0.03" "0.07" "0.02" "0.25" "0.70"]
  obtain result where
    r: "calculate_net_worth_projection 100000 75000 0.03 0.07 0.02 0.25 0.70 2024 2026
          = Inr result"
    and len: "int (length result) = 2026 - 2024 + 1"
    and years: "\<forall>i < length result. Year (result ! i) = 2024 + int i"
    by blast
  from len have l3: "length result = 3" by simp
  with years have "Year (result ! 0) = 2024" "Year (result ! 1) = 2025" "Year (result ! 2) = 2026"
    by simp_all
  with r l3 h show ?thesis by simp
qed

subsection \<open>The sensitivity table\<close>

text \<open>
  Claim C4. For base assumptions with \<open>start_year \<le> end_year\<close> and any two grids, the
  nested loops return a table with one row per growth rate and one column per tax rate, in
  the order of the grids; the cell \<open>[i][j]\<close> is the net worth of the last row of the
  projection run with \<open>asset_growth_rate = growths[i] / 100\<close> and
  \<open>tax_rate = taxes[j] / 100\<close> (the grids of the source are percentages, divided by 100 at
  the call), the other arguments being those of the base run.
\<close>

theorem sensitivity_table_shape:
  assumes "start_year \<le> end_year"
  shows "\<exists>table.
           sensitivity_data initial_net_worth initial_salary salary_growth dividend_yield
             expense_ratio start_year end_year growths taxes = Inr table
           \<and> length table = length growths
           \<and> (\<forall>i < length growths.
                 length (table ! i) = length taxes
                 \<and> (\<forall>j < length taxes.
                       \<exists>result.
                         calculate_net_worth_projection initial_net_worth initial_salary
                           (salary_growth / 100) (of_int (growths ! i) / 100)
                           (dividend_yield / 100) (of_int (taxes ! j) / 100)
                           (expense_ratio / 100) start_year end_year = Inr result
                         \<and> result \<noteq> []
                         \<and> table ! i ! j = Net_Worth (last result)))"
proof -
  let ?proj = "\<lambda>growth tax. data (run_loop initial_net_worth initial_salary (salary_growth / 100)
                  (of_int growth / 100) (dividend_yield / 100) (of_int tax / 100)
                  (expense_ratio / 100) [start_year..end_year])"
  let ?g = "\<lambda>growth tax. Net_Worth (last (?proj growth tax))"
  let ?cell = "cell initial_net_worth initial_salary salary_growth dividend_yield expense_ratio
                 start_year end_year"
  have row: "append_each (?cell growth) taxes [] = Inr (map (?g growth) taxes)" for growth
    using append_each_Inr [of taxes "?cell growth" "?g growth" "[]"]
    by (simp add: cell_Inr [OF assms])
  have table: "sensitivity_data initial_net_worth initial_salary salary_growth dividend_yield
             expense_ratio start_year end_year growths taxes
           = Inr (map (\<lambda>growth. map (?g growth) taxes) growths)"
    unfolding sensitivity_data_def
    using append_each_Inr [of growths "\<lambda>growth. append_each (?cell growth) taxes []"
        "\<lambda>growth. map (?g growth) taxes" "[]"]
    by (simp add: row)
  have ne: "?proj growth tax \<noteq> []" for growth tax
  proof -
    from assms have "0 < length (?proj growth tax)" by (simp add: length_run_loop)
    then show ?thesis by auto
  qed
  show ?thesis
    unfolding table calculate_net_worth_projection_def
    using ne by simp
qed

text \<open>
  The same with the grids of \<^verbatim>\<open>main\<close>: nine rows of seven cells, and the cell of growth
  6 and tax 30 is the final net worth 19610 of that run.
\<close>

theorem sensitivity_table_shape_witness:
  "(2024::int) \<le> 2025
   \<and> (\<exists>table.
         sensitivity_data 1000 50000 0 0 50 2024 2025 growth_rates tax_rates = Inr table
         \<and> length table = 9
         \<and> length (table ! 1) = 7
         \<and> table ! 1 ! 2 = 19610
         \<and> calculate_net_worth_projection 1000 50000 (0 / 100) (of_int 6 / 100) (0 / 100)
               (of_int 30 / 100) (50 / 100) 2024 2025
             = Inr [\<lparr>Year = 2024, Net_Worth = 1000, Salary = 50000, Dividend_Income = 0,
                      Total_Income = 50000, After_tax_Income = 35000, Expenses = 17500,
                      Savings = 17500\<rparr>,
                    \<lparr>Year = 2025, Net_Worth = 19610, Salary = 50000, Dividend_Income = 0,
                      Total_Income = 50000, After_tax_Income = 35000, Expenses = 17500,
                      Savings = 17500\<rparr>])"
proof -
  have h: "(2024::int) \<le> 2025" by simp
  have e: "calculate_net_worth_projection 1000 50000 (0 / 100) (of_int 6 / 100) (0 / 100)
               (of_int 30 / 100) (50 / 100) 2024 2025
             = Inr [\<lparr>Year = 2024, Net_Worth = 1000, Salary = 50000, Dividend_Income = 0,
                      Total_Income = 50000, After_tax_Income = 35000, Expenses = 17500,
                      Savings = 17500\<rparr>,
                    \<lparr>Year = 2025, Net_Worth = 19610, Salary = 50000, Dividend_Income = 0,
                      Total_Income = 50000, After_tax_Income = 35000, Expenses = 17500,
                      Savings = 17500\<rparr>]"
    by (simp add: calculate_net_worth_projection_def run_loop_def init_state_def loop_body_def
        Let_def py_round2_def round_half_even_def upto.simps)
  from sensitivity_table_shape [OF h, of 1000 50000 0 0 50 growth_rates tax_rates]
  obtain table where
    t: "sensitivity_data 1000 50000 0 0 50 2024 2025 growth_rates tax_rates = Inr table"
    and l: "length table = length growth_rates"
    and c: "\<forall>i < length growth_rates.
              length (table ! i) = length tax_rates
              \<and> (\<forall>j < length tax_rates.
                    \<exists>result.
                      calculate_net_worth_projection 1000 50000 (0 / 100)
                        (of_int (growth_rates ! i) / 100) (0 / 100)
                        (of_int (tax_rates ! j) / 100) (50 / 100) 2024 2025 = Inr result
                      \<and> result \<noteq> []
                      \<and> table ! i ! j = Net_Worth (last result))"
    by blast
  have i: "1 < length growth_rates" and j: "2 < length tax_rates"
    and gi: "growth_rates ! 1 = 6" and tj: "tax_rates ! 2 = 30"
    by (simp_all add: grids)
  from c i have row: "length (table ! 1) = length tax_rates"
    and cells: "\<forall>j < length tax_rates.
                    \<exists>result.
                      calculate_net_worth_projection 1000 50000 (0 / 100)
                        (of_int (growth_rates ! 1) / 100) (0 / 100)
                        (of_int (tax_rates ! j) / 100) (50 / 100) 2024 2025 = Inr result
                      \<and> result \<noteq> []
                      \<and> table ! 1 ! j = Net_Worth (last result)"
    by blast+
  from cells j obtain result where
    r: "calculate_net_worth_projection 1000 50000 (0 / 100)
       (of_int (growth_rates ! 1) / 100) (0 / 100)
       (of_int (tax_rates ! 2) / 100) (50 / 100) 2024 2025 = Inr result"
    and v: "table ! 1 ! 2 = Net_Worth (last result)"
    by blast
  from r have "Inr result = calculate_net_worth_projection 1000 50000 (0 / 100)
       (of_int 6 / 100) (0 / 100) (of_int 30 / 100) (50 / 100) 2024 2025"
    unfolding gi tj by (rule sym)
  also note e
  finally have "last result = \<lparr>Year = 2025, Net_Worth = 19610, Salary = 50000,
      Dividend_Income = 0, Total_Income = 50000, After_tax_Income = 35000, Expenses = 17500,
      Savings = 17500\<rparr>"
    by simp
  with v have "table ! 1 ! 2 = 19610"
    by simp
  with t l row e h show ?thesis
    by (simp add: grids)
qed

subsection \<open>No validation of the input\<close>

text \<open>
  Claim C5, as the code has it. The function validates nothing and raises nothing: for
  every input, also one with \<open>end_year < start_year\<close>, \<open>tax_rate \<ge> 1\<close> or a negative
  amount or ratio, it returns a frame, of \<open>end_year - start_year + 1\<close> rows when that is
  positive and of no rows otherwise.
\<close>

theorem never_raises:
  "\<exists>result.
     calculate_net_worth_projection initial_net_worth initial_salary salary_growth_rate
       asset_growth_rate dividend_yield tax_rate expense_ratio start_year end_year = Inr result
     \<and> int (length result) = max 0 (end_year - start_year + 1)"
  by (simp add: calculate_net_worth_projection_def length_run_loop)

text \<open>
  The two inputs that the specification names as rejected: the years 2030 to 2025 give
  the empty frame, and \<open>tax_rate = 1.0\<close> gives a row whose after-tax income, expenses
  and savings are 0. Neither call ends in \<open>InvalidInputError\<close>.
\<close>

theorem invalid_input_counterexample:
  "calculate_net_worth_projection 100000 75000 0.03 0.07 0.02 0.25 0.70 2030 2025 = Inr []
   \<and> calculate_net_worth_projection 100000 75000 0.03 0.07 0.02 1.0 0.70 2024 2024
       = Inr [\<lparr>Year = 2024, Net_Worth = 100000, Salary = 75000, Dividend_Income = 2000,
                Total_Income = 77000, After_tax_Income = 0, Expenses = 0, Savings = 0\<rparr>]"
  by (simp add: calculate_net_worth_projection_def run_loop_def init_state_def loop_body_def
        Let_def py_round2_def round_half_even_def upto.simps)

text \<open>
  Claim C9. When \<open>end_year < start_year\<close> the call raises nothing: it returns the frame
  with no rows.
\<close>

theorem empty_range_returns_no_rows:
  assumes "end_year < start_year"
  shows "calculate_net_worth_projection initial_net_worth initial_salary salary_growth_rate
           asset_growth_rate dividend_yield tax_rate expense_ratio start_year end_year
         = Inr []"
  using assms
  by (simp add: calculate_net_worth_projection_def run_loop_def init_state_def)

text \<open>The same at \<open>start_year = 2030\<close>, \<open>end_year = 2025\<close>.\<close>

theorem empty_range_returns_no_rows_witness:
  "(2025::int) < 2030
   \<and> calculate_net_worth_projection 100000 75000 0.03 0.07 0.02 0.25 0.70 2030 2025 = Inr []"
proof -
  have h: "(2025::int) < 2030" by simp
  from empty_range_returns_no_rows [OF h] show ?thesis by simp
qed

subsection \<open>The concrete scenario\<close>

text \<open>
  Claim C6. With initial net worth 100000, initial salary 75000, salary growth 0.03,
  asset growth 0.07, dividend yield 0.02, tax rate 0.25 and expense ratio 0.70, the run
  over 2024 alone returns the single row with dividend income 2000.00, total income
  77000.00, after-tax income 57750.00, expenses 40425.00 and savings 17325.00; the run
  over 2024 and 2025 returns two rows, the second with net worth
  \<open>(100000 + 17325) * 1.07 = 125537.75\<close>.
\<close>

theorem concrete_scenario:
  "calculate_net_worth_projection 100000 75000 0.03 0.07 0.02 0.25 0.70 2024 2024
     = Inr [\<lparr>Year = 2024, Net_Worth = 100000, Salary = 75000, Dividend_Income = 2000.00,
              Total_Income = 77000.00, After_tax_Income = 57750.00, Expenses = 40425.00,
              Savings = 17325.00\<rparr>]
   \<and> (\<exists>r0 r1.
         calculate_net_worth_projection 100000 75000 0.03 0.07 0.02 0.25 0.70 2024 2025
           = Inr [r0, r1]
         \<and> Net_Worth r1 = (100000 + 17325) * 1.07 \<and> Net_Worth r1 = 125537.75)"
  by (simp add: calculate_net_worth_projection_def run_loop_def init_state_def loop_body_def
        Let_def py_round2_def round_half_even_def upto.simps)

subsection \<open>Expense ratio 1\<close>

text \<open>
  Claim C7, as the code has it. With \<open>expense_ratio = 1\<close>, every row whose after-tax
  income is finite has savings 0, and from such a year the unrounded net worth advances
  by the one multiplication \<open>net_worth * (1 + asset_growth_rate)\<close>; the net worth of
  every row is the running net worth rounded to two decimals.
\<close>

theorem full_expense_ratio_savings:
  assumes "expense_ratio = 1"
  shows "\<exists>result.
           calculate_net_worth_projection_ieee initial_net_worth initial_salary
             salary_growth_rate asset_growth_rate dividend_yield tax_rate expense_ratio
             start_year end_year = Inr result
           \<and> (\<forall>i < length result.
                 Net_Worth_ieee (result ! i)
                   = fround2 (current_net_worth_ieee
                       (state_after_ieee initial_net_worth initial_salary salary_growth_rate
                          asset_growth_rate dividend_yield tax_rate expense_ratio
                          start_year end_year i))
                 \<and> (isfinite (After_tax_Income_ieee (result ! i)) \<longrightarrow>
                       Savings_ieee (result ! i) = Fin 0
                       \<and> current_net_worth_ieee
                           (state_after_ieee initial_net_worth initial_salary
                              salary_growth_rate asset_growth_rate dividend_yield tax_rate
                              expense_ratio start_year end_year (Suc i))
                         = fmul (current_net_worth_ieee
                                   (state_after_ieee initial_net_worth initial_salary
                                      salary_growth_rate asset_growth_rate dividend_yield
                                      tax_rate expense_ratio start_year end_year i))
                             (fadd (Fin 1) (fl asset_growth_rate))))"
proof -
  let ?result = "data_ieee (run_loop_ieee initial_net_worth initial_salary salary_growth_rate
                   asset_growth_rate dividend_yield tax_rate 1 [start_year..end_year])"
  let ?st = "state_after_ieee initial_net_worth initial_salary salary_growth_rate
               asset_growth_rate dividend_yield tax_rate 1 start_year end_year"
  have "Net_Worth_ieee (?result ! i) = fround2 (current_net_worth_ieee (?st i))
        \<and> (isfinite (After_tax_Income_ieee (?result ! i)) \<longrightarrow>
              Savings_ieee (?result ! i) = Fin 0
              \<and> current_net_worth_ieee (?st (Suc i))
                = fmul (current_net_worth_ieee (?st i)) (fadd (Fin 1) (fl asset_growth_rate)))"
    if i: "i < length ?result" for i
  proof -
    let ?ati = "fmul (fadd (current_salary_ieee (?st i))
                        (fmul (current_net_worth_ieee (?st i)) (fl dividend_yield)))
                  (fsub (Fin 1) (fl tax_rate))"
    from i have row: "?result ! i =
        row_of_ieee dividend_yield tax_rate 1 (start_year + int i) (?st i)"
      by (rule nth_projection_ieee)
    have nw: "Net_Worth_ieee (?result ! i) = fround2 (current_net_worth_ieee (?st i))"
      and ati: "After_tax_Income_ieee (?result ! i) = fround2 ?ati"
      and sav: "Savings_ieee (?result ! i) = fround2 (fsub ?ati (fmul ?ati (fl 1)))"
      unfolding row by (simp_all add: row_of_ieee_def Let_def)
    from i have step: "?st (Suc i) =
        loop_body_ieee salary_growth_rate asset_growth_rate dividend_yield tax_rate 1
          (start_year + int i) (?st i)"
      by (rule state_after_ieee_Suc)
    have "Savings_ieee (?result ! i) = Fin 0
          \<and> current_net_worth_ieee (?st (Suc i))
            = fmul (current_net_worth_ieee (?st i)) (fadd (Fin 1) (fl asset_growth_rate))"
      if "isfinite (After_tax_Income_ieee (?result ! i))"
    proof -
      from that have fin: "isfinite ?ati"
        by (simp add: ati isfinite_fround2)
      have "fmul ?ati (fl 1) = ?ati"
        by (simp only: fl_1 fmul_1 in_range_fmul)
      with fin have zero: "fsub ?ati (fmul ?ati (fl 1)) = Fin 0"
        by (simp only: fsub_self)
      then have s0: "Savings_ieee (?result ! i) = Fin 0"
        by (simp add: sav py_round2_0)
      have "current_net_worth_ieee (?st (Suc i)) =
          fmul (fadd (current_net_worth_ieee (?st i)) (fsub ?ati (fmul ?ati (fl 1))))
            (fadd (Fin 1) (fl asset_growth_rate))"
        unfolding step by (rule net_worth_loop_body_ieee)
      also have "fadd (current_net_worth_ieee (?st i)) (fsub ?ati (fmul ?ati (fl 1)))
                   = current_net_worth_ieee (?st i)"
        unfolding zero by (rule fadd_0) (rule state_after_ieee_in_range)
      finally show ?thesis using s0 by simp
    qed
    with nw show ?thesis by blast
  qed
  then show ?thesis
    unfolding assms calculate_net_worth_projection_ieee_def by blast
qed

text \<open>The same at a net worth of 1000 and a growth rate of 1/128.\<close>

theorem full_expense_ratio_savings_witness:
  "(1::real) = 1
   \<and> calculate_net_worth_projection_ieee 1000 50000 0 0.0078125 0 0.25 1 2024 2025
       = Inr [\<lparr>Year_ieee = 2024, Net_Worth_ieee = Fin 1000, Salary_ieee = Fin 50000,
                Dividend_Income_ieee = Fin 0, Total_Income_ieee = Fin 50000,
                After_tax_Income_ieee = Fin 37500, Expenses_ieee = Fin 37500,
                Savings_ieee = Fin 0\<rparr>,
              \<lparr>Year_ieee = 2025, Net_Worth_ieee = Fin 1007.81, Salary_ieee = Fin 50000,
                Dividend_Income_ieee = Fin 0, Total_Income_ieee = Fin 50000,
                After_tax_Income_ieee = Fin 37500, Expenses_ieee = Fin 37500,
                Savings_ieee = Fin 0\<rparr>]
   \<and> current_net_worth_ieee (state_after_ieee 1000 50000 0 0.0078125 0 0.25 1 2024 2025 (Suc 0))
       = fmul (current_net_worth_ieee
                 (state_after_ieee 1000 50000 0 0.0078125 0 0.25 1 2024 2025 0))
           (fadd (Fin 1) (fl 0.0078125))
   \<and> current_net_worth_ieee (state_after_ieee 1000 50000 0 0.0078125 0 0.25 1 2024 2025 (Suc 0))
       = Fin 1007.8125"
proof -
  let ?rows = "[\<lparr>Year_ieee = 2024, Net_Worth_ieee = Fin 1000, Salary_ieee = Fin 50000,
                Dividend_Income_ieee = Fin 0, Total_Income_ieee = Fin 50000,
                After_tax_Income_ieee = Fin 37500, Expenses_ieee = Fin 37500,
                Savings_ieee = Fin 0\<rparr>,
              \<lparr>Year_ieee = 2025, Net_Worth_ieee = Fin 1007.81, Salary_ieee = Fin 50000,
                Dividend_Income_ieee = Fin 0, Total_Income_ieee = Fin 50000,
                After_tax_Income_ieee = Fin 37500, Expenses_ieee = Fin 37500,
                Savings_ieee = Fin 0\<rparr>]"
  have e: "calculate_net_worth_projection_ieee 1000 50000 0 0.0078125 0 0.25 1 2024 2025
             = Inr ?rows"
    by (simp add: ieee_unfold fl_small fl_0 py_round2_def round_half_even_def)
  have h: "(1::real) = 1" by simp
  have s0: "current_net_worth_ieee
              (state_after_ieee 1000 50000 0 0.0078125 0 0.25 1 2024 2025 0) = Fin 1000"
    by (simp add: state_after_ieee_def run_loop_ieee_def init_state_ieee_def fl_small)
  from full_expense_ratio_savings [OF h, of 1000 50000 0 "0.0078125" 0 "0.25" 2024 2025]
  obtain result where
    r: "calculate_net_worth_projection_ieee 1000 50000 0 0.0078125 0 0.25 1 2024 2025
          = Inr result"
    and a: "\<forall>i < length result.
              Net_Worth_ieee (result ! i)
                = fround2 (current_net_worth_ieee
                    (state_after_ieee 1000 50000 0 0.0078125 0 0.25 1 2024 2025 i))
              \<and> (isfinite (After_tax_Income_ieee (result ! i)) \<longrightarrow>
                    Savings_ieee (result ! i) = Fin 0
                    \<and> current_net_worth_ieee
                        (state_after_ieee 1000 50000 0 0.0078125 0 0.25 1 2024 2025 (Suc i))
                      = fmul (current_net_worth_ieee
                                (state_after_ieee 1000 50000 0 0.0078125 0 0.25 1 2024 2025 i))
                          (fadd (Fin 1) (fl 0.0078125)))"
    by blast
  from r e have res: "result = ?rows" by simp
  then have "0 < length result" "isfinite (After_tax_Income_ieee (result ! 0))"
    by simp_all
  with a have step: "current_net_worth_ieee
      (state_after_ieee 1000 50000 0 0.0078125 0 0.25 1 2024 2025 (Suc 0))
    = fmul (current_net_worth_ieee
              (state_after_ieee 1000 50000 0 0.0078125 0 0.25 1 2024 2025 0))
        (fadd (Fin 1) (fl 0.0078125))"
    by blast
  have "fmul (current_net_worth_ieee
                (state_after_ieee 1000 50000 0 0.0078125 0 0.25 1 2024 2025 0))
          (fadd (Fin 1) (fl 0.0078125)) = Fin 1007.8125"
    unfolding s0 by (simp add: fl_small)
  with step have "current_net_worth_ieee
      (state_after_ieee 1000 50000 0 0.0078125 0 0.25 1 2024 2025 (Suc 0)) = Fin 1007.8125"
    by (rule trans)
  with step e show ?thesis by (simp only: simp_thms)
qed

text \<open>
  Between the emitted values the relation fails, since each is rounded on its own: the
  rows hold 1000 and 1007.81, and \<open>1000 * (1 + 1/128) = 1007.8125\<close>. And savings are not
  0 in every row: from a net worth of \<open>10 ^ 308\<close> growing elevenfold the second year
  starts at \<open>+inf\<close> and its savings are NaN.
\<close>

theorem full_expense_ratio_counterexample:
  "calculate_net_worth_projection_ieee 1000 50000 0 0.0078125 0 0.25 1 2024 2025
     = Inr [\<lparr>Year_ieee = 2024, Net_Worth_ieee = Fin 1000, Salary_ieee = Fin 50000,
              Dividend_Income_ieee = Fin 0, Total_Income_ieee = Fin 50000,
              After_tax_Income_ieee = Fin 37500, Expenses_ieee = Fin 37500,
              Savings_ieee = Fin 0\<rparr>,
            \<lparr>Year_ieee = 2025, Net_Worth_ieee = Fin 1007.81, Salary_ieee = Fin 50000,
              Dividend_Income_ieee = Fin 0, Total_Income_ieee = Fin 50000,
              After_tax_Income_ieee = Fin 37500, Expenses_ieee = Fin 37500,
              Savings_ieee = Fin 0\<rparr>]
   \<and> Net_Worth_ieee
         (projr (calculate_net_worth_projection_ieee 1000 50000 0 0.0078125 0 0.25 1
                   2024 2025) ! Suc 0)
       \<noteq> fmul (Net_Worth_ieee
                   (projr (calculate_net_worth_projection_ieee 1000 50000 0 0.0078125 0 0.25 1
                             2024 2025) ! 0))
             (fadd (Fin 1) (fl 0.0078125))
   \<and> calculate_net_worth_projection_ieee (10 ^ 308) 0 0 10 0 (1 / 4) 1 2024 2025
     = Inr [\<lparr>Year_ieee = 2024, Net_Worth_ieee = Fin (10 ^ 308), Salary_ieee = Fin 0,
              Dividend_Income_ieee = Fin 0, Total_Income_ieee = Fin 0,
              After_tax_Income_ieee = Fin 0, Expenses_ieee = Fin 0, Savings_ieee = Fin 0\<rparr>,
            \<lparr>Year_ieee = 2025, Net_Worth_ieee = PInf, Salary_ieee = Fin 0,
              Dividend_Income_ieee = NaN, Total_Income_ieee = NaN,
              After_tax_Income_ieee = NaN, Expenses_ieee = NaN, Savings_ieee = NaN\<rparr>]
   \<and> Savings_ieee
         (projr (calculate_net_worth_projection_ieee (10 ^ 308) 0 0 10 0 (1 / 4) 1
                   2024 2025) ! Suc 0)
       \<noteq> Fin 0"
proof -
  have a: "calculate_net_worth_projection_ieee 1000 50000 0 0.0078125 0 0.25 1 2024 2025
     = Inr [\<lparr>Year_ieee = 2024, Net_Worth_ieee = Fin 1000, Salary_ieee = Fin 50000,
              Dividend_Income_ieee = Fin 0, Total_Income_ieee = Fin 50000,
              After_tax_Income_ieee = Fin 37500, Expenses_ieee = Fin 37500,
              Savings_ieee = Fin 0\<rparr>,
            \<lparr>Year_ieee = 2025, Net_Worth_ieee = Fin 1007.81, Salary_ieee = Fin 50000,
              Dividend_Income_ieee = Fin 0, Total_Income_ieee = Fin 50000,
              After_tax_Income_ieee = Fin 37500, Expenses_ieee = Fin 37500,
              Savings_ieee = Fin 0\<rparr>]"
    by (simp add: ieee_unfold fl_small fl_0 py_round2_def round_half_even_def)
  have b: "Net_Worth_ieee
         (projr (calculate_net_worth_projection_ieee 1000 50000 0 0.0078125 0 0.25 1
                   2024 2025) ! Suc 0)
       \<noteq> fmul (Net_Worth_ieee
                   (projr (calculate_net_worth_projection_ieee 1000 50000 0 0.0078125 0 0.25 1
                             2024 2025) ! 0))
             (fadd (Fin 1) (fl 0.0078125))"
    unfolding a by (simp add: fl_small)
  have er: "(0::real) \<le> 1" "(1::real) \<le> 1" by simp_all
  note c = overflow_run [OF e308 er, unfolded round_e308]
  have d: "Savings_ieee
         (projr (calculate_net_worth_projection_ieee (10 ^ 308) 0 0 10 0 (1 / 4) 1
                   2024 2025) ! Suc 0)
       \<noteq> Fin 0"
    unfolding c
    by (simp only: sum.sel nth_Cons_Suc nth_Cons_0 current_state_ieee.simps pyfloat.distinct
          simp_thms)
  from a b c d show ?thesis
    by (simp only: simp_thms)
qed

subsection \<open>Salaries\<close>

text \<open>
  Claim C8, as the code has it. With \<open>salary_growth_rate > 0\<close> and
  \<open>initial_salary \<ge> 0\<close> the emitted salaries never decrease from one row to the next,
  and neither does the unrounded salary.
\<close>

theorem salary_never_decreases:
  assumes "0 < salary_growth_rate" and "0 \<le> initial_salary"
  shows "\<exists>result.
           calculate_net_worth_projection initial_net_worth initial_salary salary_growth_rate
             asset_growth_rate dividend_yield tax_rate expense_ratio start_year end_year
             = Inr result
           \<and> (\<forall>i. Suc i < length result \<longrightarrow>
                 Salary (result ! i) \<le> Salary (result ! Suc i)
                 \<and> current_salary
                     (state_after initial_net_worth initial_salary salary_growth_rate
                        asset_growth_rate dividend_yield tax_rate expense_ratio
                        start_year end_year i)
                   \<le> current_salary
                       (state_after initial_net_worth initial_salary salary_growth_rate
                          asset_growth_rate dividend_yield tax_rate expense_ratio
                          start_year end_year (Suc i)))"
proof -
  let ?result = "data (run_loop initial_net_worth initial_salary salary_growth_rate
                   asset_growth_rate dividend_yield tax_rate expense_ratio
                   [start_year..end_year])"
  let ?st = "state_after initial_net_worth initial_salary salary_growth_rate
               asset_growth_rate dividend_yield tax_rate expense_ratio start_year end_year"
  have "Salary (?result ! i) \<le> Salary (?result ! Suc i)
        \<and> current_salary (?st i) \<le> current_salary (?st (Suc i))"
    if "Suc i < length ?result" for i
  proof -
    from that have k: "int i \<le> end_year - start_year" "int (Suc i) \<le> end_year - start_year"
      by (simp_all add: length_run_loop)
    then have k1: "int i \<le> end_year - start_year + 1"
      by simp
    have s: "current_salary (?st i) = initial_salary * (1 + salary_growth_rate) ^ i"
      using k1 by (rule salary_state_after)
    have step: "current_salary (?st (Suc i))
        = current_salary (?st i) * (1 + salary_growth_rate)"
      unfolding state_after_Suc [OF k(1)] by (rule salary_loop_body)
    from assms have pos: "0 \<le> current_salary (?st i)"
      unfolding s by simp
    with assms(1) have "current_salary (?st i) * 1 \<le> current_salary (?st i) * (1 + salary_growth_rate)"
      by (intro mult_left_mono) simp_all
    with step have le: "current_salary (?st i) \<le> current_salary (?st (Suc i))" by simp
    have rows: "?result ! i =
        row_of dividend_yield tax_rate expense_ratio (start_year + int i) (?st i)"
      "?result ! Suc i =
        row_of dividend_yield tax_rate expense_ratio (start_year + int (Suc i)) (?st (Suc i))"
      by (rule nth_projection [OF k(1)]) (rule nth_projection [OF k(2)])
    from le have emitted: "Salary (?result ! i) \<le> Salary (?result ! Suc i)"
      unfolding rows by (simp add: row_of_def py_round2_mono)
    from emitted le show ?thesis by blast
  qed
  then show ?thesis
    unfolding calculate_net_worth_projection_def by blast
qed

text \<open>The same at a salary of 1000 that grows by one half.\<close>

theorem salary_never_decreases_witness:
  "(0::real) < 0.5 \<and> (0::real) \<le> 1000
   \<and> calculate_net_worth_projection 0 1000 0.5 0 0 0 1 2024 2025
       = Inr [\<lparr>Year = 2024, Net_Worth = 0, Salary = 1000, Dividend_Income = 0,
                Total_Income = 1000, After_tax_Income = 1000, Expenses = 1000, Savings = 0\<rparr>,
              \<lparr>Year = 2025, Net_Worth = 0, Salary = 1500, Dividend_Income = 0,
                Total_Income = 1500, After_tax_Income = 1500, Expenses = 1500, Savings = 0\<rparr>]
   \<and> current_salary (state_after 0 1000 0.5 0 0 0 1 2024 2025 0)
       \<le> current_salary (state_after 0 1000 0.5 0 0 0 1 2024 2025 (Suc 0))"
proof -
  let ?rows = "[\<lparr>Year = 2024, Net_Worth = 0, Salary = 1000, Dividend_Income = 0,
                Total_Income = 1000, After_tax_Income = 1000, Expenses = 1000, Savings = 0\<rparr>,
              \<lparr>Year = 2025, Net_Worth = 0, Salary = 1500, Dividend_Income = 0,
                Total_Income = 1500, After_tax_Income = 1500, Expenses = 1500,
                Savings = (0::real)\<rparr>]"
  have e: "calculate_net_worth_projection 0 1000 0.5 0 0 0 1 2024 2025 = Inr ?rows"
    by (simp add: calculate_net_worth_projection_def run_loop_def init_state_def loop_body_def
        Let_def py_round2_def round_half_even_def upto.simps)
  have h: "(0::real) < 0.5" "(0::real) \<le> 1000" by simp_all
  from salary_never_decreases [OF h, of 0 0 0 0 1 2024 2025]
  obtain result where
    r: "calculate_net_worth_projection 0 1000 0.5 0 0 0 1 2024 2025 = Inr result"
    and a: "\<forall>i. Suc i < length result \<longrightarrow>
              Salary (result ! i) \<le> Salary (result ! Suc i)
              \<and> current_salary (state_after 0 1000 0.5 0 0 0 1 2024 2025 i)
                \<le> current_salary (state_after 0 1000 0.5 0 0 0 1 2024 2025 (Suc i))"
    by blast
  from r e have "result = ?rows" by simp
  then have "Suc 0 < length result" by simp
  with a have "current_salary (state_after 0 1000 0.5 0 0 0 1 2024 2025 0)
           \<le> current_salary (state_after 0 1000 0.5 0 0 0 1 2024 2025 (Suc 0))"
    by simp
  with e h show ?thesis by simp
qed

text \<open>
  The emitted salaries need not grow strictly: a salary of 0 stays 0 whatever the
  growth rate, and a salary of 1000 growing at \<open>2 ^ -20\<close> is 1000.00 in both rows.
\<close>

theorem salary_strict_counterexample:
  "calculate_net_worth_projection 100000 0 0.5 0 0 0.25 0.5 2024 2025
     = Inr [\<lparr>Year = 2024, Net_Worth = 100000, Salary = 0, Dividend_Income = 0,
              Total_Income = 0, After_tax_Income = 0, Expenses = 0, Savings = 0\<rparr>,
            \<lparr>Year = 2025, Net_Worth = 100000, Salary = 0, Dividend_Income = 0,
              Total_Income = 0, After_tax_Income = 0, Expenses = 0, Savings = 0\<rparr>]
   \<and> \<not> Salary (projr (calculate_net_worth_projection 100000 0 0.5 0 0 0.25 0.5 2024 2025) ! 0)
         < Salary (projr (calculate_net_worth_projection 100000 0 0.5 0 0 0.25 0.5 2024 2025) ! 1)
   \<and> calculate_net_worth_projection 0 1000 0.00000095367431640625 0 0 0 1 2024 2025
     = Inr [\<lparr>Year = 2024, Net_Worth = 0, Salary = 1000, Dividend_Income = 0,
              Total_Income = 1000, After_tax_Income = 1000, Expenses = 1000, Savings = 0\<rparr>,
            \<lparr>Year = 2025, Net_Worth = 0, Salary = 1000, Dividend_Income = 0,
              Total_Income = 1000, After_tax_Income = 1000, Expenses = 1000, Savings = 0\<rparr>]
   \<and> \<not> Salary (projr (calculate_net_worth_projection 0 1000 0.00000095367431640625 0 0 0 1
                          2024 2025) ! 0)
         < Salary (projr (calculate_net_worth_projection 0 1000 0.00000095367431640625 0 0 0 1
                            2024 2025) ! 1)"
  by (simp add: calculate_net_worth_projection_def run_loop_def init_state_def loop_body_def
        Let_def py_round2_def round_half_even_def upto.simps)

subsection \<open>Signs of the projection\<close>

text \<open>
  Claim C10, as the code has it. With \<open>initial_net_worth \<ge> 0\<close>, \<open>initial_salary \<ge> 0\<close>,
  \<open>dividend_yield \<ge> 0\<close>, \<open>tax_rate\<close> and \<open>expense_ratio\<close> in \<open>[0, 1]\<close>,
  \<open>asset_growth_rate \<ge> -1\<close> and \<open>salary_growth_rate \<ge> -1\<close>, each accumulator after any
  number of passes, and each of the seven values of every returned row, is nonnegative
  (possibly \<open>+inf\<close>) or NaN, never negative; and in a row whose net worth and total income
  are finite all seven values are nonnegative.
\<close>

theorem nonnegative_or_nan_projection:
  assumes "0 \<le> initial_net_worth" and "0 \<le> initial_salary" and "0 \<le> dividend_yield"
    and "0 \<le> tax_rate" and "tax_rate \<le> 1" and "0 \<le> expense_ratio" and "expense_ratio \<le> 1"
    and "-1 \<le> asset_growth_rate" and "-1 \<le> salary_growth_rate"
  shows "(\<forall>k. (let st = state_after_ieee initial_net_worth initial_salary salary_growth_rate
                            asset_growth_rate dividend_yield tax_rate expense_ratio
                            start_year end_year k
                 in (isnan (current_net_worth_ieee st) \<or> ge0 (current_net_worth_ieee st))
                    \<and> (isnan (current_salary_ieee st) \<or> ge0 (current_salary_ieee st))))
         \<and> (\<exists>result.
               calculate_net_worth_projection_ieee initial_net_worth initial_salary
                 salary_growth_rate asset_growth_rate dividend_yield tax_rate expense_ratio
                 start_year end_year = Inr result
               \<and> (\<forall>i < length result.
                     (let r = result ! i
                      in (isnan (Net_Worth_ieee r) \<or> ge0 (Net_Worth_ieee r))
                         \<and> (isnan (Salary_ieee r) \<or> ge0 (Salary_ieee r))
                         \<and> (isnan (Dividend_Income_ieee r) \<or> ge0 (Dividend_Income_ieee r))
                         \<and> (isnan (Total_Income_ieee r) \<or> ge0 (Total_Income_ieee r))
                         \<and> (isnan (After_tax_Income_ieee r) \<or> ge0 (After_tax_Income_ieee r))
                         \<and> (isnan (Expenses_ieee r) \<or> ge0 (Expenses_ieee r))
                         \<and> (isnan (Savings_ieee r) \<or> ge0 (Savings_ieee r))
                         \<and> (isfinite (Net_Worth_ieee r) \<and> isfinite (Total_Income_ieee r) \<longrightarrow>
                               ge0 (Net_Worth_ieee r) \<and> ge0 (Salary_ieee r)
                               \<and> ge0 (Dividend_Income_ieee r) \<and> ge0 (Total_Income_ieee r)
                               \<and> ge0 (After_tax_Income_ieee r) \<and> ge0 (Expenses_ieee r)
                               \<and> ge0 (Savings_ieee r)))))"
proof -
  let ?run = "run_loop_ieee initial_net_worth initial_salary salary_growth_rate
                asset_growth_rate dividend_yield tax_rate expense_ratio"
  let ?st = "state_after_ieee initial_net_worth initial_salary salary_growth_rate
               asset_growth_rate dividend_yield tax_rate expense_ratio start_year end_year"
  let ?result = "data_ieee (?run [start_year..end_year])"
  have state: "nn (current_net_worth_ieee (?st k)) \<and> nn (current_salary_ieee (?st k))" for k
    unfolding state_after_ieee_def by (rule run_loop_ieee_nn [OF assms])
  have a: "\<forall>k. (let st = ?st k
                 in (isnan (current_net_worth_ieee st) \<or> ge0 (current_net_worth_ieee st))
                    \<and> (isnan (current_salary_ieee st) \<or> ge0 (current_salary_ieee st)))"
    using state by (simp add: Let_def nn_isnan_or_ge0)
  have b: "(let r = ?result ! i
            in (isnan (Net_Worth_ieee r) \<or> ge0 (Net_Worth_ieee r))
               \<and> (isnan (Salary_ieee r) \<or> ge0 (Salary_ieee r))
               \<and> (isnan (Dividend_Income_ieee r) \<or> ge0 (Dividend_Income_ieee r))
               \<and> (isnan (Total_Income_ieee r) \<or> ge0 (Total_Income_ieee r))
               \<and> (isnan (After_tax_Income_ieee r) \<or> ge0 (After_tax_Income_ieee r))
               \<and> (isnan (Expenses_ieee r) \<or> ge0 (Expenses_ieee r))
               \<and> (isnan (Savings_ieee r) \<or> ge0 (Savings_ieee r))
               \<and> (isfinite (Net_Worth_ieee r) \<and> isfinite (Total_Income_ieee r) \<longrightarrow>
                     ge0 (Net_Worth_ieee r) \<and> ge0 (Salary_ieee r)
                     \<and> ge0 (Dividend_Income_ieee r) \<and> ge0 (Total_Income_ieee r)
                     \<and> ge0 (After_tax_Income_ieee r) \<and> ge0 (Expenses_ieee r)
                     \<and> ge0 (Savings_ieee r)))"
    if "i < length ?result" for i
  proof -
    from that have row: "?result ! i =
        row_of_ieee dividend_yield tax_rate expense_ratio (start_year + int i) (?st i)"
      by (rule nth_projection_ieee)
    from state [of i] have "nn (current_net_worth_ieee (?st i))"
      "nn (current_salary_ieee (?st i))" by simp_all
    from row_of_ieee_nn [OF this assms(3-7), of "start_year + int i"]
    obtain nw sal d t a x sv where
      r: "row_of_ieee dividend_yield tax_rate expense_ratio (start_year + int i) (?st i) =
             \<lparr>Year_ieee = start_year + int i, Net_Worth_ieee = fround2 nw,
              Salary_ieee = fround2 sal, Dividend_Income_ieee = fround2 d,
              Total_Income_ieee = fround2 t, After_tax_Income_ieee = fround2 a,
              Expenses_ieee = fround2 x, Savings_ieee = fround2 sv\<rparr>"
      and nn: "nn nw" "nn sal" "nn d" "nn t" "nn a" "nn x" "nn sv"
      and fin: "isfinite nw \<and> isfinite t \<longrightarrow>
                  isfinite sal \<and> isfinite d \<and> isfinite a \<and> isfinite x \<and> isfinite sv"
      by blast
    have either: "isnan (fround2 v) \<or> ge0 (fround2 v)" if "nn v" for v
      using that by (rule nn_fround2)
    have ge: "ge0 (fround2 v)" if "nn v" "isfinite v" for v
      using that by (cases v) (simp_all add: py_round2_nonneg)
    from fin nn have "isfinite (fround2 nw) \<and> isfinite (fround2 t) \<longrightarrow>
        ge0 (fround2 nw) \<and> ge0 (fround2 sal) \<and> ge0 (fround2 d) \<and> ge0 (fround2 t)
        \<and> ge0 (fround2 a) \<and> ge0 (fround2 x) \<and> ge0 (fround2 sv)"
      by (simp add: isfinite_fround2 ge)
    with nn show ?thesis
      unfolding row r Let_def by (simp add: either)
  qed
  from a b show ?thesis
    unfolding calculate_net_worth_projection_ieee_def by blast
qed

text \<open>The same for the run of the concrete scenario over 2024.\<close>

theorem nonnegative_or_nan_projection_witness:
  "(0::real) \<le> 100000 \<and> (0::real) \<le> 75000 \<and> (0::real) \<le> 0.02 \<and> (0::real) \<le> 0.25
   \<and> (0.25::real) \<le> 1 \<and> (0::real) \<le> 0.70 \<and> (0.70::real) \<le> 1
   \<and> (-1::real) \<le> 0.07 \<and> (-1::real) \<le> 0.03
   \<and> calculate_net_worth_projection_ieee 100000 75000 0.03 0.07 0.02 0.25 0.70 2024 2024
       = Inr [\<lparr>Year_ieee = 2024, Net_Worth_ieee = Fin 100000, Salary_ieee = Fin 75000,
                Dividend_Income_ieee = Fin 2000, Total_Income_ieee = Fin 77000,
                After_tax_Income_ieee = Fin 57750, Expenses_ieee = Fin 40425,
                Savings_ieee = Fin 17325\<rparr>]
   \<and> ge0 (current_net_worth_ieee
             (state_after_ieee 100000 75000 0.03 0.07 0.02 0.25 0.70 2024 2024 1))"
proof -
  have h: "(0::real) \<le> 100000" "(0::real) \<le> 75000" "(0::real) \<le> 0.02" "(0::real) \<le> 0.25"
    "(0.25::real) \<le> 1" "(0::real) \<le> 0.70" "(0.70::real) \<le> 1"
    "(-1::real) \<le> 0.07" "(-1::real) \<le> 0.03"
    by simp_all
  have e: "calculate_net_worth_projection_ieee 100000 75000 0.03 0.07 0.02 0.25 0.70 2024 2024
       = Inr [\<lparr>Year_ieee = 2024, Net_Worth_ieee = Fin 100000, Salary_ieee = Fin 75000,
                Dividend_Income_ieee = Fin 2000, Total_Income_ieee = Fin 77000,
                After_tax_Income_ieee = Fin 57750, Expenses_ieee = Fin 40425,
                Savings_ieee = Fin 17325\<rparr>]"
    by (simp add: ieee_unfold fl_small py_round2_def round_half_even_def)
  have s: "current_net_worth_ieee
             (state_after_ieee 100000 75000 0.03 0.07 0.02 0.25 0.70 2024 2024 1)
           = Fin 125537.75"
    by (simp add: state_after_ieee_def ieee_unfold fl_small)
  from nonnegative_or_nan_projection [OF h, of 2024 2024] have
    "isnan (current_net_worth_ieee
              (state_after_ieee 100000 75000 0.03 0.07 0.02 0.25 0.70 2024 2024 1))
     \<or> ge0 (current_net_worth_ieee
               (state_after_ieee 100000 75000 0.03 0.07 0.02 0.25 0.70 2024 2024 1))"
    unfolding Let_def by blast
  with s have "ge0 (current_net_worth_ieee
             (state_after_ieee 100000 75000 0.03 0.07 0.02 0.25 0.70 2024 2024 1))"
    by simp
  with e h show ?thesis by simp
qed

text \<open>
  Nonnegative inputs do not keep every value nonnegative: a net worth of \<open>10 ^ 308\<close>
  growing elevenfold overflows to \<open>+inf\<close>, and the next row holds NaN, for which
  \<^verbatim>\<open>>= 0\<close> is false.
\<close>

theorem overflow_nan_counterexample:
  "calculate_net_worth_projection_ieee (10 ^ 308) 0 0 10 0 (1 / 4) (7 / 10) 2024 2025
     = Inr [\<lparr>Year_ieee = 2024, Net_Worth_ieee = Fin (10 ^ 308), Salary_ieee = Fin 0,
              Dividend_Income_ieee = Fin 0, Total_Income_ieee = Fin 0,
              After_tax_Income_ieee = Fin 0, Expenses_ieee = Fin 0, Savings_ieee = Fin 0\<rparr>,
            \<lparr>Year_ieee = 2025, Net_Worth_ieee = PInf, Salary_ieee = Fin 0,
              Dividend_Income_ieee = NaN, Total_Income_ieee = NaN,
              After_tax_Income_ieee = NaN, Expenses_ieee = NaN, Savings_ieee = NaN\<rparr>]
   \<and> \<not> ge0 (Savings_ieee
               (projr (calculate_net_worth_projection_ieee (10 ^ 308) 0 0 10 0 (1 / 4) (7 / 10)
                         2024 2025) ! Suc 0))"
proof -
  have er: "(0::real) \<le> 7 / 10" "(7 / 10 :: real) \<le> 1" by simp_all
  show ?thesis
    unfolding overflow_run [OF e308 er] round_e308
    by (simp only: sum.sel nth_Cons_Suc nth_Cons_0 current_state_ieee.simps ge0.simps
          simp_thms)
qed

end
